theory Spec2Isabelle
  imports Main "HOL-Library.Sublist"
begin

section \<open>JavaScript strings and values\<close>

text \<open>
  Strings are lists of 8-bit characters. Only the string operations the server calls are
  modelled: \<^verbatim>\<open>split\<close>, \<^verbatim>\<open>pop\<close> (the last element of the array \<^verbatim>\<open>split\<close> returns, which
  is never empty), index \<^verbatim>\<open>[0]\<close>, \<^verbatim>\<open>toLowerCase\<close> (on the ASCII letters), \<^verbatim>\<open>includes\<close>,
  \<^verbatim>\<open>startsWith\<close> and template concatenation.
\<close>

type_synonym bytes = "char list"

fun split_str :: "string \<Rightarrow> char \<Rightarrow> string list" where
  "split_str [] sep = [[]]"
| "split_str (c # cs) sep =
     (if c = sep then [] # split_str cs sep
      else (case split_str cs sep of [] \<Rightarrow> [[c]] | s # ss \<Rightarrow> (c # s) # ss))"

definition pop :: "string list \<Rightarrow> string" where
  "pop xs = (case rev xs of [] \<Rightarrow> [] | x # _ \<Rightarrow> x)"

definition first_elem :: "string list \<Rightarrow> string" where
  "first_elem xs = (case xs of [] \<Rightarrow> [] | x # _ \<Rightarrow> x)"

definition lower_char :: "char \<Rightarrow> char" where
  "lower_char c =
     (case map_of (zip ''ABCDEFGHIJKLMNOPQRSTUVWXYZ'' ''abcdefghijklmnopqrstuvwxyz'') c of
        None \<Rightarrow> c
      | Some d \<Rightarrow> d)"

definition toLowerCase :: "string \<Rightarrow> string" where
  "toLowerCase s = map lower_char s"

fun includes_str :: "string \<Rightarrow> string \<Rightarrow> bool" where
  "includes_str [] p = (p = [])"
| "includes_str (c # cs) p = (prefix p (c # cs) \<or> includes_str cs p)"

definition startsWith :: "string \<Rightarrow> string \<Rightarrow> bool" where
  "startsWith s p = prefix p s"

text \<open>JSON values, as the handlers read them from the database and write them to clients.\<close>

datatype json =
    JNull
  | JBool bool
  | JNum int
  | JStr string
  | JArr "json list"
  | JObj "(string \<times> json) list"

text \<open>JavaScript truthiness of a value (\<^verbatim>\<open>!v\<close> is its negation).\<close>

fun truthy :: "json \<Rightarrow> bool" where
  "truthy JNull = False"
| "truthy (JBool b) = b"
| "truthy (JNum n) = (n \<noteq> 0)"
| "truthy (JStr s) = (s \<noteq> [])"
| "truthy (JArr _) = True"
| "truthy (JObj _) = True"

text \<open>Property access \<^verbatim>\<open>o.k\<close>: \<^verbatim>\<open>undefined\<close> is \<open>None\<close>.\<close>

fun field :: "json \<Rightarrow> string \<Rightarrow> json option" where
  "field (JObj kvs) k = map_of kvs k"
| "field _ k = None"

text \<open>
  \<^verbatim>\<open>String(v)\<close>, which a template literal applies to a value: a string is itself, an array is
  its elements joined by commas (\<^verbatim>\<open>null\<close> elements as the empty string), an object is
  \<^verbatim>\<open>[object Object]\<close>. The text of a number is the parameter \<open>number_text\<close>.
\<close>

fun js_string :: "(int \<Rightarrow> string) \<Rightarrow> json \<Rightarrow> string"
  and js_join :: "(int \<Rightarrow> string) \<Rightarrow> json list \<Rightarrow> string" where
  "js_string number_text JNull = ''null''"
| "js_string number_text (JBool b) = (if b then ''true'' else ''false'')"
| "js_string number_text (JNum n) = number_text n"
| "js_string number_text (JStr s) = s"
| "js_string number_text (JArr xs) = js_join number_text xs"
| "js_string number_text (JObj kvs) = ''[object Object]''"
| "js_join number_text [] = []"
| "js_join number_text (x # xs) =
     (case x of JNull \<Rightarrow> [] | _ \<Rightarrow> js_string number_text x) @
     (if xs = [] then [] else '','' @ js_join number_text xs)"

section \<open>Responses and errors\<close>

datatype body = JsonBody json | BufferBody bytes

record response =
  status :: nat
  headers :: "(string \<times> string) list"
  body :: body

text \<open>\<^verbatim>\<open>res.status(n).json(j)\<close>, and \<^verbatim>\<open>res.json(j)\<close> with the default status 200. Only the
  headers a handler sets itself are recorded.\<close>

definition json_response :: "nat \<Rightarrow> json \<Rightarrow> response" where
  "json_response n j = \<lparr>status = n, headers = [], body = JsonBody j\<rparr>"

text \<open>Thrown values: multer's own error class (with its code), a plain \<^verbatim>\<open>Error\<close> (with its
  message), and the error object a storage or database call returns.\<close>

datatype js_error =
    MulterError string
  | Error string
  | BackendError string

fun multer_message :: "string \<Rightarrow> string" where
  "multer_message code =
     (if code = ''LIMIT_FILE_SIZE'' then ''File too large''
      else if code = ''LIMIT_UNEXPECTED_FILE'' then ''Unexpected field''
      else code)"

fun message :: "js_error \<Rightarrow> string" where
  "message (MulterError code) = multer_message code"
| "message (Error m) = m"
| "message (BackendError m) = m"

section \<open>Upload validation (multer setup)\<close>

record upload_file =
  originalname :: string
  mimetype :: string
  buffer :: bytes

text \<open>With memory storage, \<^verbatim>\<open>file.size\<close> is the length of the buffer.\<close>

definition file_size :: "upload_file \<Rightarrow> nat" where
  "file_size f = length (buffer f)"

text \<open>The unanchored regular expression \<^verbatim>\<open>/jpeg|jpg|png|gif|webp/\<close>: \<^verbatim>\<open>test\<close> succeeds when
  one of the alternatives occurs anywhere in the string.\<close>

definition allowed_test :: "string \<Rightarrow> bool" where
  "allowed_test s = list_ex (includes_str s) [''jpeg'', ''jpg'', ''png'', ''gif'', ''webp'']"

definition fileFilter :: "upload_file \<Rightarrow> bool" where
  "fileFilter file =
     (let ext = allowed_test (toLowerCase (pop (split_str (originalname file) CHR ''.'')));
          mime = allowed_test (mimetype file)
      in ext \<and> mime)"

definition fileSize_limit :: nat where
  "fileSize_limit = 10 * 1024 * 1024"

text \<open>
  The multer middleware built by \<^verbatim>\<open>multer({ storage, fileFilter, limits })\<close> reads the file
  parts of the request in order. A part without a file name is skipped. For each other
  part it first checks that the field may still take a file (the count given to \<^verbatim>\<open>single\<close>
  or \<^verbatim>\<open>array\<close>), then calls \<^verbatim>\<open>fileFilter\<close>, then buffers the content, which fails once it
  exceeds \<^verbatim>\<open>limits.fileSize\<close>. The first failure ends the request with that error;
  otherwise the files are handed on in order.
\<close>

fun multer_files :: "nat \<Rightarrow> upload_file list \<Rightarrow> js_error + upload_file list" where
  "multer_files left [] = Inr []"
| "multer_files left (f # fs) =
     (if originalname f = [] then multer_files left fs
      else if left = 0 then Inl (MulterError ''LIMIT_UNEXPECTED_FILE'')
      else if \<not> fileFilter f then Inl (Error ''Only image files are allowed'')
      else if file_size f > fileSize_limit then Inl (MulterError ''LIMIT_FILE_SIZE'')
      else (case multer_files (left - 1) fs of
              Inl e \<Rightarrow> Inl e
            | Inr acc \<Rightarrow> Inr (f # acc)))"

text \<open>The parts that carry a file name.\<close>

abbreviation named :: "upload_file list \<Rightarrow> upload_file list" where
  "named parts \<equiv> filter (\<lambda>f. originalname f \<noteq> []) parts"

text \<open>\<^verbatim>\<open>upload.single("image")\<close> sets \<^verbatim>\<open>req.file\<close>; \<^verbatim>\<open>upload.array("images", 10)\<close> sets
  \<^verbatim>\<open>req.files\<close>.\<close>

definition upload_single :: "upload_file list \<Rightarrow> js_error + upload_file option" where
  "upload_single parts =
     (case multer_files 1 parts of
        Inl e \<Rightarrow> Inl e
      | Inr fs \<Rightarrow> Inr (case fs of [] \<Rightarrow> None | f # _ \<Rightarrow> Some f))"

definition upload_array :: "upload_file list \<Rightarrow> js_error + upload_file list" where
  "upload_array parts = multer_files 10 parts"

definition handleUploadError :: "js_error \<Rightarrow> response" where
  "handleUploadError err =
     (if (case err of MulterError code \<Rightarrow> code = ''LIMIT_FILE_SIZE'' | _ \<Rightarrow> False)
      then json_response 400 (JObj [(''error'', JStr ''File too large. Max 10MB.'')])
      else if includes_str (message err) ''Only image files''
      then json_response 400 (JObj [(''error'', JStr (message err))])
      else json_response 500 (JObj [(''error'', JStr ''Upload failed'')]))"

section \<open>Object storage (the bucket "uploads")\<close>

record stored_object =
  name :: string
  content :: bytes
  contentType :: string

text \<open>
  The bucket lists its objects newest first, so the listing sorted by \<^verbatim>\<open>created_at\<close>
  descending is the list itself. The storage service answers every call; a call fails only
  for a reason found in the bucket: \<^verbatim>\<open>upload\<close> with \<^verbatim>\<open>upsert: false\<close> on a key that exists,
  \<^verbatim>\<open>download\<close> of a key that does not.
\<close>

type_synonym bucket = "stored_object list"

definition storage_upload :: "bucket \<Rightarrow> string \<Rightarrow> bytes \<Rightarrow> string \<Rightarrow> js_error + bucket" where
  "storage_upload b filename buf ctype =
     (if filename \<in> set (map name b) then Inl (BackendError ''The resource already exists'')
      else Inr (\<lparr>name = filename, content = buf, contentType = ctype\<rparr> # b))"

definition storage_download :: "bucket \<Rightarrow> string \<Rightarrow> js_error + stored_object" where
  "storage_download b filename =
     (case find (\<lambda>f. name f = filename) b of
        None \<Rightarrow> Inl (BackendError ''Object not found'')
      | Some f \<Rightarrow> Inr f)"



record config =
  BASE_URL :: "string option"
  SUPABASE_URL :: string

definition getPublicUrl :: "config \<Rightarrow> string \<Rightarrow> string" where
  "getPublicUrl cfg filename = SUPABASE_URL cfg @ ''/storage/v1/object/public/uploads/'' @ filename"

section \<open>Upload handlers\<close>

record upload_result =
  r_id :: string
  r_filename :: string
  r_url :: string
  r_size :: nat
  r_mimetype :: string

text \<open>\<open>uuid\<close> is the value \<^verbatim>\<open>crypto.randomUUID()\<close> returns in this call.\<close>

definition uploadToSupabase ::
  "config \<Rightarrow> string \<Rightarrow> upload_file \<Rightarrow> bucket \<Rightarrow> js_error + upload_result \<times> bucket" where
  "uploadToSupabase cfg uuid file b =
     (let ext = pop (split_str (originalname file) CHR ''.'');
          filename = uuid @ ''.'' @ ext
      in case storage_upload b filename (buffer file) (mimetype file) of
           Inl error \<Rightarrow> Inl error
         | Inr b' \<Rightarrow>
             Inr (\<lparr>r_id = uuid, r_filename = filename, r_url = getPublicUrl cfg filename,
                   r_size = file_size file, r_mimetype = mimetype file\<rparr>, b'))"

text \<open>\<^verbatim>\<open>BASE_URL ? `${BASE_URL}/file/${result.filename}` : result.url\<close>\<close>

definition file_url :: "config \<Rightarrow> upload_result \<Rightarrow> string" where
  "file_url cfg result =
     (case BASE_URL cfg of
        None \<Rightarrow> r_url result
      | Some base \<Rightarrow> if base = [] then r_url result else base @ ''/file/'' @ r_filename result)"

definition upload_handler ::
  "config \<Rightarrow> string \<Rightarrow> upload_file option \<Rightarrow> bucket \<Rightarrow> response \<times> bucket" where
  "upload_handler cfg uuid file b =
     (case file of
        None \<Rightarrow> (json_response 400 (JObj [(''error'', JStr ''No file uploaded'')]), b)
      | Some f \<Rightarrow>
          (case uploadToSupabase cfg uuid f b of
             Inl err \<Rightarrow> (json_response 500 (JObj [(''error'', JStr ''Failed to upload image'')]), b)
           | Inr (result, b') \<Rightarrow>
               (json_response 200
                  (JObj [(''message'', JStr ''Uploaded!''),
                         (''id'', JStr (r_id result)),
                         (''filename'', JStr (r_filename result)),
                         (''url'', JStr (file_url cfg result)),
                         (''size'', JNum (int (r_size result))),
                         (''mimetype'', JStr (r_mimetype result))]), b')))"

text \<open>
  A route that starts with a multer layer: when multer ends with an error, Express skips
  the request handlers that follow and hands the error to its error handling, and no layer
  of these routes touches storage on that path. Otherwise the layers after multer run
  with \<^verbatim>\<open>req.file\<close> or \<^verbatim>\<open>req.files\<close> set; they are the parameter \<open>rest\<close>. How Express
  calls \<^verbatim>\<open>handleUploadError\<close>, which this version declares with three parameters, is no
  part of these definitions: the function is modelled by its body, applied to an error.
\<close>

definition post_upload ::
  "(upload_file option \<Rightarrow> bucket \<Rightarrow> response \<times> bucket) \<Rightarrow> upload_file list \<Rightarrow> bucket
     \<Rightarrow> (js_error + response) \<times> bucket" where
  "post_upload rest parts b =
     (case upload_single parts of
        Inl err \<Rightarrow> (Inl err, b)
      | Inr file \<Rightarrow> (case rest file b of (r, b') \<Rightarrow> (Inr r, b')))"

text \<open>
  \<^verbatim>\<open>req.files.map((file) => uploadToSupabase(file))\<close> starts one upload per file, the
  \<open>i\<close>-th with the identifier \<open>uuid i\<close>, and all of them are under way together: every
  upload runs to its end whatever the others do, and the storage service handles them in
  an order of its own. That order is the parameter \<open>arrival\<close>: the upload of the file with
  the smaller arrival is handled first. Each upload changes the bucket in one step, so the
  uploads taken one after the other in that order are what the concurrent run does. The
  outcomes are listed in the order of the files.
\<close>

fun upload_in_order ::
  "config \<Rightarrow> (nat \<Rightarrow> string) \<Rightarrow> upload_file list \<Rightarrow> nat list \<Rightarrow> bucket
     \<Rightarrow> (nat \<times> (js_error + upload_result)) list \<times> bucket" where
  "upload_in_order cfg uuid files [] b = ([], b)"
| "upload_in_order cfg uuid files (i # later) b =
     (case uploadToSupabase cfg (uuid i) (files ! i) b of
        Inl e \<Rightarrow>
          (case upload_in_order cfg uuid files later b of (rs, b') \<Rightarrow> ((i, Inl e) # rs, b'))
      | Inr (r, b1) \<Rightarrow>
          (case upload_in_order cfg uuid files later b1 of (rs, b') \<Rightarrow> ((i, Inr r) # rs, b')))"

definition upload_each ::
  "config \<Rightarrow> (nat \<Rightarrow> string) \<Rightarrow> (nat \<Rightarrow> nat) \<Rightarrow> upload_file list \<Rightarrow> bucket
     \<Rightarrow> (js_error + upload_result) list \<times> bucket" where
  "upload_each cfg uuid arrival files b =
     (case upload_in_order cfg uuid files (sort_key arrival [0..<length files]) b of
        (rs, b') \<Rightarrow> (map snd (sort_key fst rs), b'))"

text \<open>\<^verbatim>\<open>Promise.all\<close>: the values in the order of the promises, or a rejection.\<close>

fun promise_all :: "('e + 'a) list \<Rightarrow> 'e + 'a list" where
  "promise_all [] = Inr []"
| "promise_all (Inl e # rs) = Inl e"
| "promise_all (Inr v # rs) = (case promise_all rs of Inl e \<Rightarrow> Inl e | Inr vs \<Rightarrow> Inr (v # vs))"

definition file_entry :: "config \<Rightarrow> upload_result \<Rightarrow> json" where
  "file_entry cfg f =
     JObj [(''id'', JStr (r_id f)), (''filename'', JStr (r_filename f)),
           (''url'', JStr (file_url cfg f))]"

definition upload_multiple_handler ::
  "config \<Rightarrow> (nat \<Rightarrow> string) \<Rightarrow> (nat \<Rightarrow> nat) \<Rightarrow> upload_file list \<Rightarrow> bucket
     \<Rightarrow> response \<times> bucket" where
  "upload_multiple_handler cfg uuid arrival files b =
     (if files = [] then (json_response 400 (JObj [(''error'', JStr ''No files uploaded'')]), b)
      else (case upload_each cfg uuid arrival files b of
              (outcomes, b') \<Rightarrow>
                (case promise_all outcomes of
                   Inl err \<Rightarrow>
                     (json_response 500 (JObj [(''error'', JStr ''Failed to upload images'')]), b')
                 | Inr uploads \<Rightarrow>
                     (json_response 200
                        (JObj [(''message'', JStr ''Uploaded successfully''),
                               (''files'', JArr (map (file_entry cfg) uploads))]), b'))))"

definition post_upload_multiple ::
  "(upload_file list \<Rightarrow> bucket \<Rightarrow> response \<times> bucket) \<Rightarrow> upload_file list \<Rightarrow> bucket
     \<Rightarrow> (js_error + response) \<times> bucket" where
  "post_upload_multiple rest parts b =
     (case upload_array parts of
        Inl err \<Rightarrow> (Inl err, b)
      | Inr files \<Rightarrow> (case rest files b of (r, b') \<Rightarrow> (Inr r, b')))"

section \<open>Listing, serving and deleting\<close>


definition image_entry :: "config \<Rightarrow> stored_object \<Rightarrow> json" where
  "image_entry cfg file =
     JObj [(''id'', JStr (first_elem (split_str (name file) CHR ''.''))),
           (''filename'', JStr (name file)),
           (''url'', JStr (getPublicUrl cfg (name file)))]"


definition get_file :: "bucket \<Rightarrow> string \<Rightarrow> response" where
  "get_file b filename =
     (case storage_download b filename of
        Inl error \<Rightarrow> json_response 404 (JObj [(''error'', JStr ''File not found'')])
      | Inr obj \<Rightarrow>
          \<lparr>status = 200, headers = [(''Content-Type'', ''image/jpeg'')],
           body = BufferBody (content obj)\<rparr>)"


section \<open>Accounts (the table "users")\<close>

text \<open>
  A row is a JSON object. A query \<^verbatim>\<open>.select(cols).eq(col, v).single()\<close> on a text column
  sends the filter as text (\<^verbatim>\<open>eq.${v}\<close>), so it matches the rows whose column is the string
  \<^verbatim>\<open>String(v)\<close>. It answers with the one matching row, cut down to the selected columns, and
  with an error when no row or more than one row matches. \<^verbatim>\<open>.insert([row]).select()\<close>
  answers with the stored row, all columns of it, or with the error of the database when it
  refuses the row. Which rows the database refuses (its constraints) is the parameter
  \<open>refuses\<close>, giving the message of the error. The table numbers its rows.
\<close>

record users_table =
  rows :: "json list"
  next_id :: int

definition select_columns :: "string list \<Rightarrow> json \<Rightarrow> json" where
  "select_columns cols row =
     JObj (concat (map (\<lambda>c. case field row c of None \<Rightarrow> [] | Some v \<Rightarrow> [(c, v)]) cols))"

definition select_eq_single ::
  "(int \<Rightarrow> string) \<Rightarrow> users_table \<Rightarrow> string list option \<Rightarrow> string \<Rightarrow> json
     \<Rightarrow> js_error + json" where
  "select_eq_single number_text db cols col v =
     (case filter (\<lambda>row. field row col = Some (JStr (js_string number_text v))) (rows db) of
        [row] \<Rightarrow> Inr (case cols of None \<Rightarrow> row | Some cs \<Rightarrow> select_columns cs row)
      | _ \<Rightarrow> Inl (BackendError ''JSON object requested, multiple (or no) rows returned''))"

definition insert_select ::
  "(users_table \<Rightarrow> (string \<times> json) list \<Rightarrow> string option) \<Rightarrow> users_table
     \<Rightarrow> (string \<times> json) list \<Rightarrow> js_error + json \<times> users_table" where
  "insert_select refuses db vals =
     (case refuses db vals of
        Some msg \<Rightarrow> Inl (BackendError msg)
      | None \<Rightarrow>
          (let row = JObj ((''id'', JNum (next_id db)) # vals)
           in Inr (row, db\<lparr>rows := rows db @ [row], next_id := next_id db + 1\<rparr>)))"

text \<open>
  The bcrypt library is a parameter: \<open>salted_hash\<close> is the hash \<^verbatim>\<open>bcrypt.hash\<close> computes for
  a password in this call and \<open>matches\<close> the comparison \<^verbatim>\<open>bcrypt.compare\<close> makes. Both calls
  throw when the password is not a string.
\<close>

definition bcrypt_hash :: "(string \<Rightarrow> string) \<Rightarrow> json \<Rightarrow> js_error + string" where
  "bcrypt_hash salted_hash password =
     (case password of
        JStr p \<Rightarrow> Inr (salted_hash p)
      | _ \<Rightarrow> Inl (Error ''data and salt arguments required''))"

definition bcrypt_compare :: "(string \<Rightarrow> string \<Rightarrow> bool) \<Rightarrow> json \<Rightarrow> string \<Rightarrow> js_error + bool" where
  "bcrypt_compare matches password hash =
     (case password of
        JStr p \<Rightarrow> Inr (matches p hash)
      | _ \<Rightarrow> Inl (Error ''data and hash must be strings''))"

text \<open>\<^verbatim>\<open>username || email.split("@")[0]\<close>: the call throws when \<^verbatim>\<open>email\<close> is not a string.\<close>

definition username_or_default :: "json option \<Rightarrow> json \<Rightarrow> js_error + json" where
  "username_or_default username email =
     (case username of
        Some u \<Rightarrow> if truthy u then Inr u else
          (case email of
             JStr e \<Rightarrow> Inr (JStr (first_elem (split_str e CHR ''@'')))
           | _ \<Rightarrow> Inl (Error ''email.split is not a function''))
      | None \<Rightarrow>
          (case email of
             JStr e \<Rightarrow> Inr (JStr (first_elem (split_str e CHR ''@'')))
           | _ \<Rightarrow> Inl (Error ''email.split is not a function'')))"

definition value_or :: "json option \<Rightarrow> json \<Rightarrow> json" where
  "value_or v d = (case v of None \<Rightarrow> d | Some j \<Rightarrow> if truthy j then j else d)"

definition assigned_role :: "json option \<Rightarrow> json" where
  "assigned_role role =
     (case role of
        None \<Rightarrow> JStr ''user''
      | Some r \<Rightarrow> if r \<in> set [JStr ''user'', JStr ''admin'', JStr ''moderator''] then r else JStr ''user'')"

definition falsy :: "json option \<Rightarrow> bool" where
  "falsy v = (case v of None \<Rightarrow> True | Some j \<Rightarrow> \<not> truthy j)"

definition register ::
  "(int \<Rightarrow> string) \<Rightarrow> (string \<Rightarrow> string)
     \<Rightarrow> (users_table \<Rightarrow> (string \<times> json) list \<Rightarrow> string option)
     \<Rightarrow> users_table \<Rightarrow> json \<Rightarrow> response \<times> users_table" where
  "register number_text salted_hash refuses db req_body =
     (if falsy (field req_body ''email'') \<or> falsy (field req_body ''password'')
      then (json_response 400 (JObj [(''error'', JStr ''Email and password required'')]), db)
      else
        (case (field req_body ''email'', field req_body ''password'') of
           (Some email, Some password) \<Rightarrow>
             (case select_eq_single number_text db None ''email'' email of
                Inr existing \<Rightarrow>
                  (json_response 409 (JObj [(''error'', JStr ''Email already exists'')]), db)
              | Inl _ \<Rightarrow>
                  (case bcrypt_hash salted_hash password of
                     Inl err \<Rightarrow> (json_response 500 (JObj [(''error'', JStr ''Server error'')]), db)
                   | Inr password_hash \<Rightarrow>
                       (case username_or_default (field req_body ''username'') email of
                          Inl err \<Rightarrow>
                            (json_response 500 (JObj [(''error'', JStr ''Server error'')]), db)
                        | Inr username \<Rightarrow>
                            (case insert_select refuses db
                                    [(''username'', username),
                                     (''full_name'', value_or (field req_body ''full_name'') (JStr [])),
                                     (''email'', email),
                                     (''role'', assigned_role (field req_body ''role'')),
                                     (''password'', JStr password_hash)] of
                               Inl error \<Rightarrow>
                                 (json_response 400 (JObj [(''error'', JStr (message error))]), db)
                             | Inr (row, db') \<Rightarrow>
                                 (json_response 201
                                    (JObj [(''message'', JStr ''User created''), (''user'', row)]),
                                  db')))))
         | _ \<Rightarrow> (json_response 400 (JObj [(''error'', JStr ''Email and password required'')]), db)))"

text \<open>
  \<^verbatim>\<open>jwt.sign(payload, jwt_secret, { expiresIn: "1h" })\<close> is the parameter \<open>sign\<close> of the login
  handler: the compact token it returns for a payload, or the error it throws.
\<close>

definition login ::
  "(int \<Rightarrow> string) \<Rightarrow> (string \<Rightarrow> string \<Rightarrow> bool) \<Rightarrow> (json \<Rightarrow> js_error + string)
     \<Rightarrow> users_table \<Rightarrow> json \<Rightarrow> response" where
  "login number_text matches sign db req_body =
     (if falsy (field req_body ''email'') \<or> falsy (field req_body ''password'')
      then json_response 400 (JObj [(''message'', JStr ''Email and password are required'')])
      else
        (case (field req_body ''email'', field req_body ''password'') of
           (Some email, Some password) \<Rightarrow>
             (case select_eq_single number_text db
                     (Some [''id'', ''email'', ''username'', ''full_name'', ''role'', ''password''])
                     ''email'' email of
                Inl error \<Rightarrow> json_response 401 (JObj [(''message'', JStr ''Invalid email or password'')])
              | Inr user \<Rightarrow>
                  (case field user ''password'' of
                     Some (JStr stored) \<Rightarrow>
                       if stored = []
                       then json_response 500
                              (JObj [(''message'', JStr ''Password not set correctly for this user.'')])
                       else
                         (case bcrypt_compare matches password stored of
                            Inl err \<Rightarrow> json_response 500 (JObj [(''message'', JStr ''Login failed'')])
                          | Inr isMatch \<Rightarrow>
                              if \<not> isMatch
                              then json_response 401 (JObj [(''message'', JStr ''Invalid email or password'')])
                              else
                                (case sign (JObj (case field user ''id'' of
                                                    None \<Rightarrow> []
                                                  | Some uid \<Rightarrow> [(''userId'', uid)])) of
                                   Inl err \<Rightarrow> json_response 500 (JObj [(''message'', JStr ''Login failed'')])
                                 | Inr token \<Rightarrow> json_response 200 (JObj [(''token'', JStr token)])))
                   | _ \<Rightarrow> json_response 500
                            (JObj [(''message'', JStr ''Password not set correctly for this user.'')])))
         | _ \<Rightarrow> json_response 400 (JObj [(''message'', JStr ''Email and password are required'')])))"

section \<open>Session tokens\<close>

text \<open>
  Modelled from the spec: the token library behind \<^verbatim>\<open>jwt.sign\<close> and \<^verbatim>\<open>jwt.verify\<close>
  (jsonwebtoken) is not among the repository's files. The definitions follow the Token
  Service of the specification: \<open>issue\<close> signs a token embedding the subject and an expiry one
  hour from issuance, using a server-held secret; \<open>verify\<close> fails with \<open>InvalidToken\<close> if the
  signature does not validate, the token is malformed, or it is expired, and otherwise
  returns the embedded subject. Time is counted in seconds; the signing function \<open>mac\<close> is a
  parameter. The login handler calls \<^verbatim>\<open>jwt.sign({ userId: user.id }, jwt_secret, { expiresIn: "1h" })\<close>,
  and \<^verbatim>\<open>authenticateToken\<close> calls \<^verbatim>\<open>jwt.verify(token, jwt_secret)\<close> and answers 403 when it throws.
\<close>

datatype session_token =
    Token json nat string
  | Malformed string

datatype token_error = InvalidToken

definition one_hour :: nat where
  "one_hour = 60 * 60"

definition issue :: "(string \<Rightarrow> json \<Rightarrow> nat \<Rightarrow> string) \<Rightarrow> string \<Rightarrow> nat \<Rightarrow> json \<Rightarrow> session_token" where
  "issue mac secret now subjectId =
     Token subjectId (now + one_hour) (mac secret subjectId (now + one_hour))"

definition verify ::
  "(string \<Rightarrow> json \<Rightarrow> nat \<Rightarrow> string) \<Rightarrow> string \<Rightarrow> nat \<Rightarrow> session_token \<Rightarrow> token_error + json" where
  "verify mac secret now token =
     (case token of
        Malformed _ \<Rightarrow> Inl InvalidToken
      | Token subjectId expiry sig \<Rightarrow>
          if sig \<noteq> mac secret subjectId expiry then Inl InvalidToken
          else if expiry \<le> now then Inl InvalidToken
          else Inr subjectId)"

section \<open>Identifiers\<close>

text \<open>The layout of the strings \<^verbatim>\<open>crypto.randomUUID()\<close> returns: 36 characters, hyphens at
  the positions 8, 13, 18 and 23, lower-case hexadecimal digits elsewhere.\<close>

definition hex_digit :: "char \<Rightarrow> bool" where
  "hex_digit c = (c \<in> set ''0123456789abcdef'')"

definition is_uuid :: "string \<Rightarrow> bool" where
  "is_uuid s =
     (length s = 36 \<and>
      list_all (\<lambda>(i, c). if i \<in> {8, 13, 18, 23} then c = CHR ''-'' else hex_digit c)
        (enumerate 0 s))"

text \<open>The key \<^verbatim>\<open>uploadToSupabase\<close> builds for a file.\<close>

abbreviation key_of :: "string \<Rightarrow> upload_file \<Rightarrow> string" where
  "key_of uuid f \<equiv> uuid @ ''.'' @ pop (split_str (originalname f) CHR ''.'')"

section \<open>Example data\<close>

definition example_config :: config where
  "example_config =
     \<lparr>BASE_URL = Some ''https://img.example.com'', SUPABASE_URL = ''https://proj.supabase.co''\<rparr>"

definition example_uuid :: string where
  "example_uuid = ''123e4567-e89b-42d3-a456-426614174000''"

definition example_uuids :: "nat \<Rightarrow> string" where
  "example_uuids i =
     (if i = 0 then ''123e4567-e89b-42d3-a456-426614174000''
      else ''9f8e7d6c-5b4a-4c3d-8e2f-1a0b9c8d7e6f'')"

text \<open>The decimal text of a whole number.\<close>

fun decimal_nat :: "nat \<Rightarrow> string" where
  "decimal_nat n =
     (if n < 10 then [''0123456789'' ! n]
      else decimal_nat (n div 10) @ [''0123456789'' ! (n mod 10)])"

definition decimal :: "int \<Rightarrow> string" where
  "decimal n = (if n < 0 then ''-'' @ decimal_nat (nat (- n)) else decimal_nat (nat n))"

definition example_png :: upload_file where
  "example_png = \<lparr>originalname = ''cat.png'', mimetype = ''image/png'', buffer = ''abc''\<rparr>"

text \<open>A file part of the form whose file input was left empty.\<close>

definition example_empty_part :: upload_file where
  "example_empty_part = \<lparr>originalname = [], mimetype = ''application/octet-stream'', buffer = []\<rparr>"

definition example_big_png :: upload_file where
  "example_big_png =
     \<lparr>originalname = ''big.png'', mimetype = ''image/png'',
      buffer = replicate (10 * 1024 * 1024 + 1) (CHR 0x00)\<rparr>"

definition example_big_exe :: upload_file where
  "example_big_exe =
     \<lparr>originalname = ''setup.exe'', mimetype = ''application/octet-stream'',
      buffer = replicate (10 * 1024 * 1024 + 1) (CHR 0x00)\<rparr>"

definition example_exe :: upload_file where
  "example_exe =
     \<lparr>originalname = ''setup.exe'', mimetype = ''application/octet-stream'', buffer = ''MZ''\<rparr>"

definition example_bucket :: bucket where
  "example_bucket =
     [\<lparr>name = ''123e4567-e89b-42d3-a456-426614174000.png'', content = ''abc'',
       contentType = ''image/png''\<rparr>]"

definition example_photo :: upload_file where
  "example_photo =
     \<lparr>originalname = ''holiday.2024.JPG'', mimetype = ''image/jpeg'', buffer = ''abc''\<rparr>"

definition example_users :: users_table where
  "example_users =
     \<lparr>rows =
        [JObj [(''id'', JNum 1), (''username'', JStr ''ann''), (''full_name'', JStr ''Ann''),
               (''email'', JStr ''ann@x.com''), (''role'', JStr ''user''),
               (''password'', JStr ''hash-of-secret'')],
         JObj [(''id'', JNum 2), (''username'', JStr ''bob''), (''full_name'', JStr ''Bob''),
               (''email'', JStr ''bob@x.com''), (''role'', JStr ''user''),
               (''password'', JNull)]],
      next_id = 3\<rparr>"

definition example_matches :: "string \<Rightarrow> string \<Rightarrow> bool" where
  "example_matches p h = (h = ''hash-of-'' @ p)"

definition example_sign :: "json \<Rightarrow> js_error + string" where
  "example_sign payload = (if payload = JObj [(''userId'', JNum 1)] then Inr ''token-1'' else Inr ''token-x'')"

definition credentials :: "string \<Rightarrow> string \<Rightarrow> json" where
  "credentials e p = JObj [(''email'', JStr e), (''password'', JStr p)]"



definition example_mac :: "string \<Rightarrow> json \<Rightarrow> nat \<Rightarrow> string" where
  "example_mac secret subjectId expiry = ''signed-with-'' @ secret"

section \<open>Facts about the string operations\<close>

lemma split_str_nonempty: "split_str s c \<noteq> []"
  by (induction s) (auto split: list.splits)

lemma first_elem_split: "first_elem (split_str s c) = takeWhile (\<lambda>x. x \<noteq> c) s"
  by (induction s) (auto simp: first_elem_def split: list.splits)

lemma pop_last: "xs \<noteq> [] \<Longrightarrow> pop xs = last xs"
  by (cases xs rule: rev_cases) (auto simp: pop_def)

lemma split_str_no_sep: "c \<notin> set s \<Longrightarrow> split_str s c = [s]"
  by (induction s) auto

lemma split_str_single: "split_str s c = [t] \<Longrightarrow> c \<notin> set s \<and> t = s"
  by (induction s arbitrary: t) (auto simp: split_str_nonempty split: if_splits list.splits)

lemma last_split: "last (split_str s c) = rev (takeWhile (\<lambda>x. x \<noteq> c) (rev s))"
proof (induction s)
  case Nil
  show ?case by simp
next
  case (Cons a s)
  show ?case
  proof (cases "a = c")
    case True
    then show ?thesis using Cons by (simp add: split_str_nonempty takeWhile_tail)
  next
    case False
    obtain t ts where sp: "split_str s c = t # ts"
      using split_str_nonempty by (cases "split_str s c") auto
    show ?thesis
    proof (cases ts)
      case Nil
      with sp have "c \<notin> set s" "t = s" using split_str_single by auto
      then have "takeWhile (\<lambda>x. x \<noteq> c) (rev s @ [a]) = rev s @ [a]"
        using False by (intro takeWhile_eq_all_conv[THEN iffD2]) auto
      then have "rev (takeWhile (\<lambda>x. x \<noteq> c) (rev (a # s))) = a # s"
        by (simp only: rev.simps rev_append rev_rev_ident) simp
      moreover have "last (split_str (a # s) c) = a # s"
        using False sp Nil \<open>t = s\<close> by simp
      ultimately show ?thesis by (simp only:)
    next
      case (Cons u us)
      have "c \<in> set s"
      proof (rule ccontr)
        assume "c \<notin> set s"
        then have "split_str s c = [s]" by (rule split_str_no_sep)
        with sp Cons show False by simp
      qed
      then have "takeWhile (\<lambda>x. x \<noteq> c) (rev s @ [a]) = takeWhile (\<lambda>x. x \<noteq> c) (rev s)"
        by (intro takeWhile_append1[where x = c]) auto
      then show ?thesis using False sp Cons Cons.IH by simp
    qed
  qed
qed

lemma pop_split: "pop (split_str s c) = rev (takeWhile (\<lambda>x. x \<noteq> c) (rev s))"
  by (simp add: pop_last split_str_nonempty last_split)

lemma pop_split_no_sep: "c \<notin> set (pop (split_str s c))"
  by (auto simp: pop_split dest: set_takeWhileD)

lemma pop_split_suffix: "suffix (pop (split_str s c)) s"
proof -
  have "prefix (takeWhile (\<lambda>x. x \<noteq> c) (rev s)) (rev s)"
    by (metis prefixI takeWhile_dropWhile_id)
  then show ?thesis by (simp add: pop_split suffix_to_prefix)
qed

lemma first_elem_key: "c \<notin> set u \<Longrightarrow> first_elem (split_str (u @ c # rest) c) = u"
proof -
  assume "c \<notin> set u"
  then have "takeWhile (\<lambda>x. x \<noteq> c) (u @ c # rest) = u @ takeWhile (\<lambda>x. x \<noteq> c) (c # rest)"
    by (intro takeWhile_append2) auto
  then show ?thesis by (simp add: first_elem_split)
qed

section \<open>Facts about validation and uploads\<close>

lemma fileFilter_named: "fileFilter f \<Longrightarrow> originalname f \<noteq> []"
  by (auto simp: fileFilter_def allowed_test_def toLowerCase_def pop_def)

lemma multer_files_Inr:
  "multer_files n fs = Inr acc \<Longrightarrow>
     acc = named fs \<and> length acc \<le> n \<and>
     (\<forall>f \<in> set acc. fileFilter f \<and> file_size f \<le> fileSize_limit)"
proof (induction fs arbitrary: n acc)
  case Nil
  then show ?case by simp
next
  case (Cons f fs)
  show ?case
  proof (cases "originalname f = []")
    case True
    with Cons.prems have "multer_files n fs = Inr acc" by simp
    from Cons.IH[OF this] True show ?thesis by auto
  next
    case False
    with Cons.prems obtain acc' where
      n: "n \<noteq> 0" and ok: "fileFilter f" "file_size f \<le> fileSize_limit"
      and rec: "multer_files (n - 1) fs = Inr acc'" and acc: "acc = f # acc'"
      by (auto split: if_splits sum.splits)
    from Cons.IH[OF rec] n ok acc False show ?thesis by auto
  qed
qed

lemma multer_files_accepts:
  "length (named fs) \<le> n \<Longrightarrow>
   \<forall>f \<in> set (named fs). fileFilter f \<and> file_size f \<le> fileSize_limit \<Longrightarrow>
     multer_files n fs = Inr (named fs)"
proof (induction fs arbitrary: n)
  case Nil
  show ?case by simp
next
  case (Cons f fs)
  show ?case
  proof (cases "originalname f = []")
    case True
    with Cons.prems Cons.IH[of n] show ?thesis by simp
  next
    case False
    with Cons.prems obtain m where m: "n = Suc m" by (cases n) auto
    from Cons.prems False m have "length (named fs) \<le> m"
      and "\<forall>f \<in> set (named fs). fileFilter f \<and> file_size f \<le> fileSize_limit"
      and "fileFilter f" "file_size f \<le> fileSize_limit"
      by auto
    with Cons.IH[of m] m False show ?thesis by simp
  qed
qed

lemma multer_files_too_many:
  "n < length (named fs) \<Longrightarrow>
   \<forall>f \<in> set (take n (named fs)). fileFilter f \<and> file_size f \<le> fileSize_limit \<Longrightarrow>
     multer_files n fs = Inl (MulterError ''LIMIT_UNEXPECTED_FILE'')"
proof (induction fs arbitrary: n)
  case Nil
  then show ?case by simp
next
  case (Cons f fs)
  show ?case
  proof (cases "originalname f = []")
    case True
    with Cons.prems Cons.IH[of n] show ?thesis by simp
  next
    case False
    show ?thesis
    proof (cases n)
      case 0
      with False show ?thesis by simp
    next
      case (Suc m)
      with Cons.prems False have "m < length (named fs)"
        and "\<forall>f \<in> set (take m (named fs)). fileFilter f \<and> file_size f \<le> fileSize_limit"
        and "fileFilter f" "file_size f \<le> fileSize_limit"
        by auto
      with Cons.IH[of m] Suc False show ?thesis by simp
    qed
  qed
qed

lemma multer_files_rejects:
  "n < length (named fs) \<or>
   (\<exists>f \<in> set (named fs). \<not> fileFilter f \<or> fileSize_limit < file_size f) \<Longrightarrow>
     \<exists>e. multer_files n fs = Inl e"
proof (cases "multer_files n fs")
  case (Inl e)
  then show ?thesis by blast
next
  case (Inr acc)
  assume "n < length (named fs) \<or>
     (\<exists>f \<in> set (named fs). \<not> fileFilter f \<or> fileSize_limit < file_size f)"
  with multer_files_Inr[OF Inr] show ?thesis by force
qed

lemma multer_files_too_large:
  "length (named pre) < n \<Longrightarrow>
   \<forall>g \<in> set (named pre). fileFilter g \<and> file_size g \<le> fileSize_limit \<Longrightarrow>
   fileFilter f \<Longrightarrow> fileSize_limit < file_size f \<Longrightarrow>
     multer_files n (pre @ f # others) = Inl (MulterError ''LIMIT_FILE_SIZE'')"
proof (induction pre arbitrary: n)
  case Nil
  then show ?case by (simp add: fileFilter_named)
next
  case (Cons g pre)
  show ?case
  proof (cases "originalname g = []")
    case True
    with Cons.prems Cons.IH[of n] show ?thesis by simp
  next
    case False
    with Cons.prems obtain m where "n = Suc m" by (cases n) auto
    with Cons.prems Cons.IH[of m] False show ?thesis by simp
  qed
qed

lemma uploadToSupabase_Inr:
  "uploadToSupabase cfg u f b = Inr (r, b') \<Longrightarrow>
     r = \<lparr>r_id = u, r_filename = key_of u f, r_url = getPublicUrl cfg (key_of u f),
          r_size = file_size f, r_mimetype = mimetype f\<rparr> \<and>
     b' = \<lparr>name = key_of u f, content = buffer f, contentType = mimetype f\<rparr> # b \<and>
     key_of u f \<notin> set (map name b)"
  by (auto simp: uploadToSupabase_def storage_upload_def Let_def split: if_splits)

lemma uploadToSupabase_Inl:
  "uploadToSupabase cfg u f b = Inl e \<Longrightarrow> key_of u f \<in> set (map name b)"
  by (auto simp: uploadToSupabase_def storage_upload_def Let_def split: if_splits)

lemma promise_all_map_Inr: "promise_all (map Inr vs) = Inr vs"
  by (induction vs) auto

lemma promise_all_Inr: "promise_all rs = Inr vs \<Longrightarrow> rs = map Inr vs"
proof (induction rs arbitrary: vs rule: promise_all.induct)
  case 1
  then show ?case by auto
next
  case (2 e rs)
  then show ?case by auto
next
  case (3 v rs)
  then show ?case by (auto split: sum.splits)
qed

lemma promise_all_all_Inr:
  "(\<forall>i < length os. \<exists>r. os ! i = Inr r) \<longleftrightarrow> (\<exists>rs. promise_all os = Inr rs)"
proof (induction os rule: promise_all.induct)
  case 1
  show ?case by simp
next
  case (2 e rs)
  show ?case by auto
next
  case (3 v rs)
  have "(\<forall>i<length (Inr v # rs). \<exists>r. (Inr v # rs) ! i = Inr r) \<longleftrightarrow>
        (\<forall>i<length rs. \<exists>r. rs ! i = Inr r)"
    by (auto simp: nth_Cons split: nat.splits)
  with 3 show ?case by (auto split: sum.splits)
qed

lemma upload_in_order_fst:
  "map fst (fst (upload_in_order cfg uuid files order b)) = order"
proof (induction order arbitrary: b)
  case Nil
  show ?case by simp
next
  case (Cons i order)
  show ?case
  proof (cases "uploadToSupabase cfg (uuid i) (files ! i) b")
    case (Inl e)
    with Cons.IH[of b] show ?thesis
      by (cases "upload_in_order cfg uuid files order b") simp
  next
    case (Inr p)
    obtain r b1 where "p = (r, b1)" by (cases p)
    with Inr Cons.IH[of b1] show ?thesis
      by (cases "upload_in_order cfg uuid files order b1") simp
  qed
qed

lemma upload_in_order_Inr:
  "(i, Inr r) \<in> set (fst (upload_in_order cfg uuid files order b)) \<Longrightarrow>
     r = \<lparr>r_id = uuid i, r_filename = key_of (uuid i) (files ! i),
          r_url = getPublicUrl cfg (key_of (uuid i) (files ! i)),
          r_size = file_size (files ! i), r_mimetype = mimetype (files ! i)\<rparr>"
proof (induction order arbitrary: b)
  case Nil
  then show ?case by simp
next
  case (Cons j order)
  show ?case
  proof (cases "uploadToSupabase cfg (uuid j) (files ! j) b")
    case (Inl e)
    obtain rs b' where rec: "upload_in_order cfg uuid files order b = (rs, b')"
      by (cases "upload_in_order cfg uuid files order b")
    with Cons.prems Inl have "(i, Inr r) \<in> set rs" by auto
    with Cons.IH[of b] rec show ?thesis by simp
  next
    case (Inr p)
    obtain r1 b1 where p: "p = (r1, b1)" by (cases p)
    obtain rs b' where rec: "upload_in_order cfg uuid files order b1 = (rs, b')"
      by (cases "upload_in_order cfg uuid files order b1")
    from Cons.prems Inr p rec have "(i = j \<and> r = r1) \<or> (i, Inr r) \<in> set rs" by auto
    then show ?thesis
    proof
      assume "i = j \<and> r = r1"
      with uploadToSupabase_Inr[of cfg "uuid j" "files ! j" b r1 b1] Inr p
      show ?thesis by simp
    next
      assume "(i, Inr r) \<in> set rs"
      with Cons.IH[of b1] rec show ?thesis by simp
    qed
  qed
qed

lemma sort_key_fst_upt:
  assumes "set (map fst ps) = {0..<n}" and "length ps = n"
  shows "map fst (sort_key fst ps) = [0..<n]"
proof -
  let ?xs = "map fst (sort_key fst ps)"
  have "sorted ?xs" by (rule sorted_sort_key)
  moreover have s: "set ?xs = {0..<n}" using assms(1) by simp
  moreover have "distinct ?xs"
  proof (rule card_distinct)
    from s have "card (set ?xs) = n" by simp
    also have "n = length ?xs" using assms(2) by simp
    finally show "card (set ?xs) = length ?xs" .
  qed
  ultimately show ?thesis
    by (intro sorted_distinct_set_unique) simp_all
qed

lemma upload_each_indices:
  "map fst (sort_key fst (fst (upload_in_order cfg uuid files
      (sort_key arrival [0..<length files]) b))) = [0..<length files]"
proof (rule sort_key_fst_upt)
  let ?rs = "fst (upload_in_order cfg uuid files (sort_key arrival [0..<length files]) b)"
  have m: "map fst ?rs = sort_key arrival [0..<length files]"
    by (rule upload_in_order_fst)
  then show "set (map fst ?rs) = {0..<length files}" by simp
  from m have "length (map fst ?rs) = length (sort_key arrival [0..<length files])"
    by simp
  then show "length ?rs = length files" by simp
qed

lemma upload_each_length: "length (fst (upload_each cfg uuid arrival files b)) = length files"
proof -
  obtain rs b' where rec:
    "upload_in_order cfg uuid files (sort_key arrival [0..<length files]) b = (rs, b')"
    by (cases "upload_in_order cfg uuid files (sort_key arrival [0..<length files]) b")
  from upload_in_order_fst[of cfg uuid files "sort_key arrival [0..<length files]" b] rec
  have "length rs = length files"
    by (metis fst_conv length_map length_sort length_upt diff_zero)
  with rec show ?thesis by (simp add: upload_each_def)
qed

lemma upload_each_nth:
  assumes "i < length files" and "fst (upload_each cfg uuid arrival files b) ! i = Inr r"
  shows "r = \<lparr>r_id = uuid i, r_filename = key_of (uuid i) (files ! i),
          r_url = getPublicUrl cfg (key_of (uuid i) (files ! i)),
          r_size = file_size (files ! i), r_mimetype = mimetype (files ! i)\<rparr>"
proof -
  let ?order = "sort_key arrival [0..<length files]"
  obtain rs b' where rec: "upload_in_order cfg uuid files ?order b = (rs, b')"
    by (cases "upload_in_order cfg uuid files ?order b")
  let ?sorted = "sort_key fst rs"
  from upload_each_indices[of cfg uuid files arrival b] rec
  have idx: "map fst ?sorted = [0..<length files]" by simp
  then have len: "length ?sorted = length files"
    by (metis length_map length_upt diff_zero)
  from idx assms(1) len have "fst (?sorted ! i) = i"
    by (metis nth_map nth_upt add_0)
  moreover from assms(2) rec assms(1) len have "snd (?sorted ! i) = Inr r"
    by (simp add: upload_each_def)
  ultimately have "?sorted ! i = (i, Inr r)" by (metis prod.collapse)
  with assms(1) len have "(i, Inr r) \<in> set ?sorted" by (metis nth_mem)
  then have "(i, Inr r) \<in> set rs" by simp
  with upload_in_order_Inr[of i r cfg uuid files ?order b] rec show ?thesis by simp
qed

lemma upload_each_results:
  assumes "promise_all (fst (upload_each cfg uuid arrival files b)) = Inr rs"
  shows "rs = map (\<lambda>i. \<lparr>r_id = uuid i, r_filename = key_of (uuid i) (files ! i),
                        r_url = getPublicUrl cfg (key_of (uuid i) (files ! i)),
                        r_size = file_size (files ! i), r_mimetype = mimetype (files ! i)\<rparr>)
              [0..<length files]"
proof -
  from promise_all_Inr[OF assms] have os: "fst (upload_each cfg uuid arrival files b) = map Inr rs" .
  with upload_each_length[of cfg uuid arrival files b] have len: "length rs = length files"
    by simp
  show ?thesis
  proof (rule nth_equalityI)
    show "length rs = length (map (\<lambda>i. \<lparr>r_id = uuid i, r_filename = key_of (uuid i) (files ! i),
                        r_url = getPublicUrl cfg (key_of (uuid i) (files ! i)),
                        r_size = file_size (files ! i), r_mimetype = mimetype (files ! i)\<rparr>)
              [0..<length files])"
      using len by simp
  next
    fix i assume i: "i < length rs"
    with os have "fst (upload_each cfg uuid arrival files b) ! i = Inr (rs ! i)" by simp
    from upload_each_nth[OF _ this] i len
    show "rs ! i = map (\<lambda>i. \<lparr>r_id = uuid i, r_filename = key_of (uuid i) (files ! i),
                        r_url = getPublicUrl cfg (key_of (uuid i) (files ! i)),
                        r_size = file_size (files ! i), r_mimetype = mimetype (files ! i)\<rparr>)
              [0..<length files] ! i"
      by simp
  qed
qed

lemma upload_each_all_Inr:
  "(\<forall>i < length fs. \<exists>r. fst (upload_each cfg uuid arrival fs b) ! i = Inr r) \<longleftrightarrow>
   (\<exists>rs. promise_all (fst (upload_each cfg uuid arrival fs b)) = Inr rs)"
  using promise_all_all_Inr[of "fst (upload_each cfg uuid arrival fs b)"]
  by (simp add: upload_each_length)

section \<open>Facts about identifiers and the bucket\<close>

lemma is_uuid_no_dot: "is_uuid s \<Longrightarrow> CHR ''.'' \<notin> set s"
proof
  assume u: "is_uuid s" and "CHR ''.'' \<in> set s"
  then obtain i where i: "i < length s" "s ! i = CHR ''.''"
    by (auto simp: in_set_conv_nth)
  then have "(i, CHR ''.'') \<in> set (enumerate 0 s)"
    by (simp add: in_set_enumerate_eq)
  with u have "if i \<in> {8, 13, 18, 23} then CHR ''.'' = CHR ''-'' else hex_digit CHR ''.''"
    by (auto simp: is_uuid_def list_all_iff)
  then show False by (simp add: hex_digit_def split: if_splits)
qed

lemma find_name: "filename \<in> set (map name b) \<Longrightarrow>
    \<exists>obj \<in> set b. name obj = filename \<and> find (\<lambda>f. name f = filename) b = Some obj"
  by (induction b) auto

lemma find_name_None: "filename \<notin> set (map name b) \<Longrightarrow> find (\<lambda>f. name f = filename) b = None"
  by (induction b) auto

section \<open>Facts about accounts\<close>

lemma field_select_columns:
  "field (select_columns cols row) k = (if k \<in> set cols then field row k else None)"
proof -
  have "map_of (concat (map (\<lambda>c. case field row c of None \<Rightarrow> [] | Some v \<Rightarrow> [(c, v)]) cols)) k =
      (if k \<in> set cols then field row k else None)"
    by (induction cols) (auto split: option.splits)
  then show ?thesis by (simp add: select_columns_def)
qed

lemma select_eq_single_found:
  "filter (\<lambda>r. field r col = Some (JStr (js_string number_text v))) (rows db) = [row] \<Longrightarrow>
     select_eq_single number_text db (Some cols) col v = Inr (select_columns cols row) \<and>
     select_eq_single number_text db None col v = Inr row"
  by (simp add: select_eq_single_def)

lemma select_eq_single_other:
  "\<forall>row. filter (\<lambda>r. field r col = Some (JStr (js_string number_text v))) (rows db) \<noteq> [row] \<Longrightarrow>
     \<exists>e. select_eq_single number_text db cols col v = Inl e"
  by (auto simp: select_eq_single_def split: list.splits)

lemma insert_select_Inr:
  "insert_select refuses db vals = Inr (row, db') \<Longrightarrow>
     row = JObj ((''id'', JNum (next_id db)) # vals)"
  by (auto simp: insert_select_def Let_def split: option.splits)

section \<open>Facts about listing and deleting\<close>









section \<open>The claims\<close>

subsection \<open>C1: what registration returns\<close>

text \<open>
  Claim C1 says that the account returned by a successful registration contains no
  password field. The handler answers with the row \<^verbatim>\<open>.insert([...]).select()\<close> returns, all
  columns of it: whenever it answers 201, the \<^verbatim>\<open>user\<close> object of the body has the field
  \<^verbatim>\<open>password\<close>, and its value is the hash bcrypt computed for the password of the request.
\<close>

theorem C1_register_returns_hash:
  "status (fst (register number_text salted_hash refuses db req_body)) = 201 \<Longrightarrow>
     (\<exists>p user.
        field req_body ''password'' = Some (JStr p) \<and>
        body (fst (register number_text salted_hash refuses db req_body)) =
          JsonBody (JObj [(''message'', JStr ''User created''), (''user'', user)]) \<and>
        field user ''password'' = Some (JStr (salted_hash p)))"
proof -
  assume ok: "status (fst (register number_text salted_hash refuses db req_body)) = 201"
  from ok have nf: "\<not> (falsy (field req_body ''email'') \<or> falsy (field req_body ''password''))"
    by (auto simp: register_def json_response_def)
  then obtain email password where
    e: "field req_body ''email'' = Some email" and p: "field req_body ''password'' = Some password"
    by (cases "field req_body ''email''"; cases "field req_body ''password''")
       (auto simp: falsy_def)
  from ok nf e p obtain err where sel: "select_eq_single number_text db None ''email'' email = Inl err"
    by (cases "select_eq_single number_text db None ''email'' email")
       (auto simp: register_def json_response_def)
  from ok nf e p sel obtain password_hash where
    h: "bcrypt_hash salted_hash password = Inr password_hash"
    by (cases "bcrypt_hash salted_hash password")
       (auto simp: register_def json_response_def)
  then obtain pw where pw: "password = JStr pw" "password_hash = salted_hash pw"
    by (cases password) (auto simp: bcrypt_hash_def)
  from ok nf e p sel h obtain username where
    u: "username_or_default (field req_body ''username'') email = Inr username"
    by (cases "username_or_default (field req_body ''username'') email")
       (auto simp: register_def json_response_def)
  let ?vals = "[(''username'', username),
                (''full_name'', value_or (field req_body ''full_name'') (JStr [])),
                (''email'', email),
                (''role'', assigned_role (field req_body ''role'')),
                (''password'', JStr password_hash)]"
  from ok nf e p sel h u obtain row db' where
    ins: "insert_select refuses db ?vals = Inr (row, db')"
    by (cases "insert_select refuses db ?vals")
       (auto simp: register_def json_response_def)
  from insert_select_Inr[OF ins] have row: "field row ''password'' = Some (JStr password_hash)"
    by simp
  from nf e p sel h u ins
  have "body (fst (register number_text salted_hash refuses db req_body)) =
          JsonBody (JObj [(''message'', JStr ''User created''), (''user'', row)])"
    by (simp add: register_def json_response_def)
  with row pw p show ?thesis by blast
qed

theorem C1_register_returns_hash_witness:
  "fst (register decimal (\<lambda>p. ''$2b$10$'' @ p) (\<lambda>db vals. None) \<lparr>rows = [], next_id = 1\<rparr>
          (credentials ''a@x.com'' ''p'')) =
     json_response 201
       (JObj [(''message'', JStr ''User created''),
              (''user'', JObj [(''id'', JNum 1), (''username'', JStr ''a''), (''full_name'', JStr []),
                               (''email'', JStr ''a@x.com''), (''role'', JStr ''user''),
                               (''password'', JStr ''$2b$10$p'')])]) \<and>
   (\<exists>p user.
      field (credentials ''a@x.com'' ''p'') ''password'' = Some (JStr p) \<and>
      body (fst (register decimal (\<lambda>p. ''$2b$10$'' @ p) (\<lambda>db vals. None) \<lparr>rows = [], next_id = 1\<rparr>
                   (credentials ''a@x.com'' ''p''))) =
        JsonBody (JObj [(''message'', JStr ''User created''), (''user'', user)]) \<and>
      field user ''password'' = Some (JStr (''$2b$10$'' @ p)))"
proof -
  have ev: "fst (register decimal (\<lambda>p. ''$2b$10$'' @ p) (\<lambda>db vals. None) \<lparr>rows = [], next_id = 1\<rparr>
          (credentials ''a@x.com'' ''p'')) =
     json_response 201
       (JObj [(''message'', JStr ''User created''),
              (''user'', JObj [(''id'', JNum 1), (''username'', JStr ''a''), (''full_name'', JStr []),
                               (''email'', JStr ''a@x.com''), (''role'', JStr ''user''),
                               (''password'', JStr ''$2b$10$p'')])])"
    by (simp add: register_def credentials_def falsy_def select_eq_single_def bcrypt_hash_def
        username_or_default_def first_elem_def value_or_def assigned_role_def insert_select_def
        Let_def)
  then have st: "status (fst (register decimal (\<lambda>p. ''$2b$10$'' @ p) (\<lambda>db vals. None)
      \<lparr>rows = [], next_id = 1\<rparr> (credentials ''a@x.com'' ''p''))) = 201"
    by (simp only: json_response_def response.simps)
  show ?thesis
    by (rule conjI[OF ev C1_register_returns_hash[OF st]])
qed

subsection \<open>C2: the upload filter\<close>

text \<open>
  Claim C2 says that an upload is accepted if and only if its extension is exactly one of
  jpg, jpeg, png, gif and webp and its declared content type is of the same image family.
  The filter tests both strings with an unanchored pattern, so it accepts the extension
  \<^verbatim>\<open>pngx\<close>, and it accepts the extension \<^verbatim>\<open>png\<close> with a content type that is no image type
  but contains \<^verbatim>\<open>png\<close>; multer then hands the file on to the upload handler.
\<close>

theorem C2_filter_accepts_other_extensions:
  "fileFilter \<lparr>originalname = ''notes.pngx'', mimetype = ''image/png'', buffer = ''x''\<rparr> \<and>
   fileFilter \<lparr>originalname = ''a.png'', mimetype = ''application/x-notpng'', buffer = ''x''\<rparr> \<and>
   upload_single [\<lparr>originalname = ''notes.pngx'', mimetype = ''image/png'', buffer = ''x''\<rparr>] =
     Inr (Some \<lparr>originalname = ''notes.pngx'', mimetype = ''image/png'', buffer = ''x''\<rparr>)"
  by (simp add: upload_single_def fileFilter_def allowed_test_def toLowerCase_def lower_char_def
      pop_def file_size_def fileSize_limit_def)

subsection \<open>C3: failed and successful logins\<close>

text \<open>
  Claim C3, as amended: every login whose e-mail and password are both present (truthy
  values of any JSON type) looks the account up by the text of the e-mail, as the query
  sends it. It fails with the same answer, 401 "Invalid email or password", when the lookup
  does not yield exactly one account and when the bcrypt comparison returns false; when the
  account's stored hash is missing or is not a non-empty string it fails with 500
  "Password not set correctly for this user."; when the comparison throws, as it does for a
  password that is not a string, it fails with 500 "Login failed"; on success the answer is
  200 with the token signed for the payload \<^verbatim>\<open>{ userId: user.id }\<close>.
\<close>

theorem C3_login:
  "field req_body ''email'' = Some email \<Longrightarrow> truthy email \<Longrightarrow>
   field req_body ''password'' = Some password \<Longrightarrow> truthy password \<Longrightarrow>
     ((\<forall>row. filter (\<lambda>r. field r ''email'' = Some (JStr (js_string number_text email))) (rows db)
               \<noteq> [row]) \<longrightarrow>
        login number_text matches sign db req_body =
          json_response 401 (JObj [(''message'', JStr ''Invalid email or password'')])) \<and>
     (\<forall>row stored.
        filter (\<lambda>r. field r ''email'' = Some (JStr (js_string number_text email))) (rows db) = [row] \<and>
        field row ''password'' = Some (JStr stored) \<and> stored \<noteq> [] \<and>
        bcrypt_compare matches password stored = Inr False \<longrightarrow>
        login number_text matches sign db req_body =
          json_response 401 (JObj [(''message'', JStr ''Invalid email or password'')])) \<and>
     (\<forall>row.
        filter (\<lambda>r. field r ''email'' = Some (JStr (js_string number_text email))) (rows db) = [row] \<and>
        (\<forall>stored. field row ''password'' = Some (JStr stored) \<longrightarrow> stored = []) \<longrightarrow>
        login number_text matches sign db req_body =
          json_response 500 (JObj [(''message'', JStr ''Password not set correctly for this user.'')])) \<and>
     (\<forall>row stored err.
        filter (\<lambda>r. field r ''email'' = Some (JStr (js_string number_text email))) (rows db) = [row] \<and>
        field row ''password'' = Some (JStr stored) \<and> stored \<noteq> [] \<and>
        bcrypt_compare matches password stored = Inl err \<longrightarrow>
        login number_text matches sign db req_body =
          json_response 500 (JObj [(''message'', JStr ''Login failed'')])) \<and>
     (\<forall>row stored uid token.
        filter (\<lambda>r. field r ''email'' = Some (JStr (js_string number_text email))) (rows db) = [row] \<and>
        field row ''password'' = Some (JStr stored) \<and> stored \<noteq> [] \<and>
        bcrypt_compare matches password stored = Inr True \<and> field row ''id'' = Some uid \<and>
        sign (JObj [(''userId'', uid)]) = Inr token \<longrightarrow>
        login number_text matches sign db req_body =
          json_response 200 (JObj [(''token'', JStr token)]))"
proof -
  assume e: "field req_body ''email'' = Some email" and te: "truthy email"
    and p: "field req_body ''password'' = Some password" and tp: "truthy password"
  let ?cols = "[''id'', ''email'', ''username'', ''full_name'', ''role'', ''password'']"
  let ?accounts = "filter (\<lambda>r. field r ''email'' = Some (JStr (js_string number_text email))) (rows db)"
  from e te p tp have nf: "\<not> (falsy (field req_body ''email'') \<or> falsy (field req_body ''password''))"
    by (simp add: falsy_def)
  have unfold: "login number_text matches sign db req_body =
      (case select_eq_single number_text db (Some ?cols) ''email'' email of
         Inl error \<Rightarrow> json_response 401 (JObj [(''message'', JStr ''Invalid email or password'')])
       | Inr user \<Rightarrow>
           (case field user ''password'' of
              Some (JStr stored) \<Rightarrow>
                if stored = []
                then json_response 500
                       (JObj [(''message'', JStr ''Password not set correctly for this user.'')])
                else
                  (case bcrypt_compare matches password stored of
                     Inl err \<Rightarrow> json_response 500 (JObj [(''message'', JStr ''Login failed'')])
                   | Inr isMatch \<Rightarrow>
                       if \<not> isMatch
                       then json_response 401 (JObj [(''message'', JStr ''Invalid email or password'')])
                       else
                         (case sign (JObj (case field user ''id'' of
                                             None \<Rightarrow> []
                                           | Some uid \<Rightarrow> [(''userId'', uid)])) of
                            Inl err \<Rightarrow> json_response 500 (JObj [(''message'', JStr ''Login failed'')])
                          | Inr token \<Rightarrow> json_response 200 (JObj [(''token'', JStr token)])))
            | _ \<Rightarrow> json_response 500
                     (JObj [(''message'', JStr ''Password not set correctly for this user.'')])))"
    unfolding login_def using nf e p by (simp only: if_False prod.case option.case)
  have sel: "\<And>row. ?accounts = [row] \<Longrightarrow>
      select_eq_single number_text db (Some ?cols) ''email'' email = Inr (select_columns ?cols row)"
    by (simp add: select_eq_single_def)
  have pw: "\<And>row. field (select_columns ?cols row) ''password'' = field row ''password''"
    by (simp add: field_select_columns)
  have uid: "\<And>row. field (select_columns ?cols row) ''id'' = field row ''id''"
    by (simp add: field_select_columns)
  have a: "(\<forall>row. ?accounts \<noteq> [row]) \<longrightarrow>
        login number_text matches sign db req_body =
          json_response 401 (JObj [(''message'', JStr ''Invalid email or password'')])"
  proof
    assume "\<forall>row. ?accounts \<noteq> [row]"
    from select_eq_single_other[OF this, of "Some ?cols"]
    obtain err where "select_eq_single number_text db (Some ?cols) ''email'' email = Inl err"
      by blast
    then show "login number_text matches sign db req_body =
          json_response 401 (JObj [(''message'', JStr ''Invalid email or password'')])"
      unfolding unfold by simp
  qed
  have b: "\<forall>row stored.
        ?accounts = [row] \<and> field row ''password'' = Some (JStr stored) \<and> stored \<noteq> [] \<and>
        bcrypt_compare matches password stored = Inr False \<longrightarrow>
        login number_text matches sign db req_body =
          json_response 401 (JObj [(''message'', JStr ''Invalid email or password'')])"
    unfolding unfold by (simp add: sel pw)
  have c: "\<forall>row.
        ?accounts = [row] \<and>
        (\<forall>stored. field row ''password'' = Some (JStr stored) \<longrightarrow> stored = []) \<longrightarrow>
        login number_text matches sign db req_body =
          json_response 500 (JObj [(''message'', JStr ''Password not set correctly for this user.'')])"
    unfolding unfold by (auto simp: sel pw split: option.splits json.splits)
  have d: "\<forall>row stored err.
        ?accounts = [row] \<and> field row ''password'' = Some (JStr stored) \<and> stored \<noteq> [] \<and>
        bcrypt_compare matches password stored = Inl err \<longrightarrow>
        login number_text matches sign db req_body =
          json_response 500 (JObj [(''message'', JStr ''Login failed'')])"
    unfolding unfold by (simp add: sel pw)
  have f: "\<forall>row stored uid token.
        ?accounts = [row] \<and> field row ''password'' = Some (JStr stored) \<and> stored \<noteq> [] \<and>
        bcrypt_compare matches password stored = Inr True \<and> field row ''id'' = Some uid \<and>
        sign (JObj [(''userId'', uid)]) = Inr token \<longrightarrow>
        login number_text matches sign db req_body =
          json_response 200 (JObj [(''token'', JStr token)])"
    unfolding unfold by (simp add: sel pw uid)
  show ?thesis
    by (rule conjI[OF a conjI[OF b conjI[OF c conjI[OF d f]]]])
qed

theorem C3_login_witness:
  "login decimal example_matches example_sign example_users (credentials ''nobody@x.com'' ''secret'') =
     json_response 401 (JObj [(''message'', JStr ''Invalid email or password'')]) \<and>
   login decimal example_matches example_sign example_users (credentials ''ann@x.com'' ''wrong'') =
     json_response 401 (JObj [(''message'', JStr ''Invalid email or password'')]) \<and>
   login decimal example_matches example_sign example_users (credentials ''bob@x.com'' ''secret'') =
     json_response 500 (JObj [(''message'', JStr ''Password not set correctly for this user.'')]) \<and>
   login decimal example_matches example_sign example_users
       (JObj [(''email'', JStr ''ann@x.com''), (''password'', JNum 7)]) =
     json_response 500 (JObj [(''message'', JStr ''Login failed'')]) \<and>
   login decimal example_matches example_sign example_users
       (JObj [(''email'', JArr [JStr ''ann@x.com'']), (''password'', JStr ''secret'')]) =
     json_response 200 (JObj [(''token'', JStr ''token-1'')])"
proof -
  let ?ann = "JObj [(''id'', JNum 1), (''username'', JStr ''ann''), (''full_name'', JStr ''Ann''),
               (''email'', JStr ''ann@x.com''), (''role'', JStr ''user''),
               (''password'', JStr ''hash-of-secret'')]"
  let ?bob = "JObj [(''id'', JNum 2), (''username'', JStr ''bob''), (''full_name'', JStr ''Bob''),
               (''email'', JStr ''bob@x.com''), (''role'', JStr ''user''),
               (''password'', JNull)]"
  have r1: "login decimal example_matches example_sign example_users (credentials ''nobody@x.com'' ''secret'') =
     json_response 401 (JObj [(''message'', JStr ''Invalid email or password'')])"
  proof -
    have pre: "\<forall>row. filter (\<lambda>r. field r ''email'' = Some (JStr (js_string decimal (JStr ''nobody@x.com''))))
                 (rows example_users) \<noteq> [row]"
      by (simp add: example_users_def)
    have "field (credentials ''nobody@x.com'' ''secret'') ''email'' = Some (JStr ''nobody@x.com'')"
      "truthy (JStr ''nobody@x.com'')"
      "field (credentials ''nobody@x.com'' ''secret'') ''password'' = Some (JStr ''secret'')"
      "truthy (JStr ''secret'')"
      by (simp_all add: credentials_def)
    from C3_login[OF this, of decimal example_users example_matches example_sign]
    have "(\<forall>row. filter (\<lambda>r. field r ''email'' = Some (JStr (js_string decimal (JStr ''nobody@x.com''))))
                 (rows example_users) \<noteq> [row]) \<longrightarrow>
        login decimal example_matches example_sign example_users (credentials ''nobody@x.com'' ''secret'') =
          json_response 401 (JObj [(''message'', JStr ''Invalid email or password'')])"
      by (rule conjunct1)
    from this pre show ?thesis by (rule mp)
  qed
  have r2: "login decimal example_matches example_sign example_users (credentials ''ann@x.com'' ''wrong'') =
     json_response 401 (JObj [(''message'', JStr ''Invalid email or password'')])"
  proof -
    have pre: "filter (\<lambda>r. field r ''email'' = Some (JStr (js_string decimal (JStr ''ann@x.com''))))
                 (rows example_users) = [?ann] \<and>
        field ?ann ''password'' = Some (JStr ''hash-of-secret'') \<and> ''hash-of-secret'' \<noteq> [] \<and>
        bcrypt_compare example_matches (JStr ''wrong'') ''hash-of-secret'' = Inr False"
      by (simp add: example_users_def example_matches_def bcrypt_compare_def)
    have "field (credentials ''ann@x.com'' ''wrong'') ''email'' = Some (JStr ''ann@x.com'')"
      "truthy (JStr ''ann@x.com'')"
      "field (credentials ''ann@x.com'' ''wrong'') ''password'' = Some (JStr ''wrong'')"
      "truthy (JStr ''wrong'')"
      by (simp_all add: credentials_def)
    from C3_login[OF this, of decimal example_users example_matches example_sign]
    have "\<forall>row stored.
        filter (\<lambda>r. field r ''email'' = Some (JStr (js_string decimal (JStr ''ann@x.com''))))
          (rows example_users) = [row] \<and>
        field row ''password'' = Some (JStr stored) \<and> stored \<noteq> [] \<and>
        bcrypt_compare example_matches (JStr ''wrong'') stored = Inr False \<longrightarrow>
        login decimal example_matches example_sign example_users (credentials ''ann@x.com'' ''wrong'') =
          json_response 401 (JObj [(''message'', JStr ''Invalid email or password'')])"
      by (rule conjunct1[OF conjunct2])
    from this[THEN spec, THEN spec, THEN mp, OF pre] show ?thesis .
  qed
  have r3: "login decimal example_matches example_sign example_users (credentials ''bob@x.com'' ''secret'') =
     json_response 500 (JObj [(''message'', JStr ''Password not set correctly for this user.'')])"
  proof -
    have pre: "filter (\<lambda>r. field r ''email'' = Some (JStr (js_string decimal (JStr ''bob@x.com''))))
                 (rows example_users) = [?bob] \<and>
        (\<forall>stored. field ?bob ''password'' = Some (JStr stored) \<longrightarrow> stored = [])"
      by (simp add: example_users_def)
    have "field (credentials ''bob@x.com'' ''secret'') ''email'' = Some (JStr ''bob@x.com'')"
      "truthy (JStr ''bob@x.com'')"
      "field (credentials ''bob@x.com'' ''secret'') ''password'' = Some (JStr ''secret'')"
      "truthy (JStr ''secret'')"
      by (simp_all add: credentials_def)
    from C3_login[OF this, of decimal example_users example_matches example_sign]
    have "\<forall>row.
        filter (\<lambda>r. field r ''email'' = Some (JStr (js_string decimal (JStr ''bob@x.com''))))
          (rows example_users) = [row] \<and>
        (\<forall>stored. field row ''password'' = Some (JStr stored) \<longrightarrow> stored = []) \<longrightarrow>
        login decimal example_matches example_sign example_users (credentials ''bob@x.com'' ''secret'') =
          json_response 500 (JObj [(''message'', JStr ''Password not set correctly for this user.'')])"
      by (rule conjunct1[OF conjunct2[OF conjunct2]])
    from this[THEN spec, THEN mp, OF pre] show ?thesis .
  qed
  have r4: "login decimal example_matches example_sign example_users
       (JObj [(''email'', JStr ''ann@x.com''), (''password'', JNum 7)]) =
     json_response 500 (JObj [(''message'', JStr ''Login failed'')])"
  proof -
    have pre: "filter (\<lambda>r. field r ''email'' = Some (JStr (js_string decimal (JStr ''ann@x.com''))))
                 (rows example_users) = [?ann] \<and>
        field ?ann ''password'' = Some (JStr ''hash-of-secret'') \<and> ''hash-of-secret'' \<noteq> [] \<and>
        bcrypt_compare example_matches (JNum 7) ''hash-of-secret'' =
          Inl (Error ''data and hash must be strings'')"
      by (simp add: example_users_def bcrypt_compare_def)
    have "field (JObj [(''email'', JStr ''ann@x.com''), (''password'', JNum 7)]) ''email'' =
            Some (JStr ''ann@x.com'')"
      "truthy (JStr ''ann@x.com'')"
      "field (JObj [(''email'', JStr ''ann@x.com''), (''password'', JNum 7)]) ''password'' =
            Some (JNum 7)"
      "truthy (JNum 7)"
      by simp_all
    from C3_login[OF this, of decimal example_users example_matches example_sign]
    have "\<forall>row stored err.
        filter (\<lambda>r. field r ''email'' = Some (JStr (js_string decimal (JStr ''ann@x.com''))))
          (rows example_users) = [row] \<and>
        field row ''password'' = Some (JStr stored) \<and> stored \<noteq> [] \<and>
        bcrypt_compare example_matches (JNum 7) stored = Inl err \<longrightarrow>
        login decimal example_matches example_sign example_users
            (JObj [(''email'', JStr ''ann@x.com''), (''password'', JNum 7)]) =
          json_response 500 (JObj [(''message'', JStr ''Login failed'')])"
      by (rule conjunct1[OF conjunct2[OF conjunct2[OF conjunct2]]])
    from this[THEN spec, THEN spec, THEN spec, THEN mp, OF pre] show ?thesis .
  qed
  have r5: "login decimal example_matches example_sign example_users
       (JObj [(''email'', JArr [JStr ''ann@x.com'']), (''password'', JStr ''secret'')]) =
     json_response 200 (JObj [(''token'', JStr ''token-1'')])"
  proof -
    have pre: "filter (\<lambda>r. field r ''email'' = Some (JStr (js_string decimal (JArr [JStr ''ann@x.com'']))))
                 (rows example_users) = [?ann] \<and>
        field ?ann ''password'' = Some (JStr ''hash-of-secret'') \<and> ''hash-of-secret'' \<noteq> [] \<and>
        bcrypt_compare example_matches (JStr ''secret'') ''hash-of-secret'' = Inr True \<and>
        field ?ann ''id'' = Some (JNum 1) \<and>
        example_sign (JObj [(''userId'', JNum 1)]) = Inr ''token-1''"
      by (simp add: example_users_def example_matches_def example_sign_def bcrypt_compare_def)
    have "field (JObj [(''email'', JArr [JStr ''ann@x.com'']), (''password'', JStr ''secret'')]) ''email'' =
            Some (JArr [JStr ''ann@x.com''])"
      "truthy (JArr [JStr ''ann@x.com''])"
      "field (JObj [(''email'', JArr [JStr ''ann@x.com'']), (''password'', JStr ''secret'')]) ''password'' =
            Some (JStr ''secret'')"
      "truthy (JStr ''secret'')"
      by simp_all
    from C3_login[OF this, of decimal example_users example_matches example_sign]
    have "\<forall>row stored uid token.
        filter (\<lambda>r. field r ''email'' = Some (JStr (js_string decimal (JArr [JStr ''ann@x.com'']))))
          (rows example_users) = [row] \<and>
        field row ''password'' = Some (JStr stored) \<and> stored \<noteq> [] \<and>
        bcrypt_compare example_matches (JStr ''secret'') stored = Inr True \<and>
        field row ''id'' = Some uid \<and>
        example_sign (JObj [(''userId'', uid)]) = Inr token \<longrightarrow>
        login decimal example_matches example_sign example_users
            (JObj [(''email'', JArr [JStr ''ann@x.com'']), (''password'', JStr ''secret'')]) =
          json_response 200 (JObj [(''token'', JStr token)])"
      by (rule conjunct2[OF conjunct2[OF conjunct2[OF conjunct2]]])
    from this[THEN spec, THEN spec, THEN spec, THEN spec, THEN mp, OF pre] show ?thesis .
  qed
  show ?thesis
    by (rule conjI[OF r1 conjI[OF r2 conjI[OF r3 conjI[OF r4 r5]]]])
qed

text \<open>
  The claim as stated gives the three failures one answer. An account whose stored hash is
  null is answered with status 500 and a message of its own, an unknown address with 401.
\<close>

theorem C3_missing_hash_answers_500:
  "login decimal example_matches example_sign example_users (credentials ''bob@x.com'' ''secret'') =
     json_response 500 (JObj [(''message'', JStr ''Password not set correctly for this user.'')]) \<and>
   login decimal example_matches example_sign example_users (credentials ''nobody@x.com'' ''secret'') =
     json_response 401 (JObj [(''message'', JStr ''Invalid email or password'')]) \<and>
   login decimal example_matches example_sign example_users (credentials ''bob@x.com'' ''secret'') \<noteq>
     login decimal example_matches example_sign example_users (credentials ''nobody@x.com'' ''secret'')"
  by (simp add: login_def credentials_def example_users_def falsy_def select_eq_single_def
      select_columns_def json_response_def)


subsection \<open>C4: issuing and verifying tokens\<close>

text \<open>
  Claim C4: for every subject, verifying an issued token before the one-hour expiry returns
  that subject; verifying it at or after one hour past issuance fails with \<open>InvalidToken\<close>,
  as does a token whose signature does not validate and a malformed token. A token issued
  at time \<open>T\<close> is accepted at \<open>T\<close> + 59 min and rejected at \<open>T\<close> + 61 min.
\<close>

theorem C4_issue_verify:
  "verify mac secret t (issue mac secret T subjectId) =
     (if t < T + 60 * 60 then Inr subjectId else Inl InvalidToken) \<and>
   verify mac secret (T + 59 * 60) (issue mac secret T subjectId) = Inr subjectId \<and>
   verify mac secret (T + 61 * 60) (issue mac secret T subjectId) = Inl InvalidToken \<and>
   (sig \<noteq> mac secret s e \<longrightarrow> verify mac secret t (Token s e sig) = Inl InvalidToken) \<and>
   verify mac secret t (Malformed raw) = Inl InvalidToken"
  by (simp add: verify_def issue_def one_hour_def)

theorem C4_issue_verify_witness:
  "''forged'' \<noteq> example_mac ''k'' (JNum 1) 5000 \<and>
   verify example_mac ''k'' 100 (Token (JNum 1) 5000 ''forged'') = Inl InvalidToken \<and>
   verify example_mac ''k'' (1000 + 59 * 60) (issue example_mac ''k'' 1000 (JNum 1)) = Inr (JNum 1) \<and>
   verify example_mac ''k'' (1000 + 61 * 60) (issue example_mac ''k'' 1000 (JNum 1)) = Inl InvalidToken"
proof -
  have f: "''forged'' \<noteq> example_mac ''k'' (JNum 1) 5000"
    by (simp add: example_mac_def)
  note inst = C4_issue_verify[of example_mac "''k''" 100 1000 "JNum 1" "''forged''" "JNum 1" 5000]
  from inst f have a: "verify example_mac ''k'' 100 (Token (JNum 1) 5000 ''forged'') = Inl InvalidToken"
    by blast
  from inst have b: "verify example_mac ''k'' (1000 + 59 * 60) (issue example_mac ''k'' 1000 (JNum 1)) = Inr (JNum 1)"
    by blast
  from inst have c: "verify example_mac ''k'' (1000 + 61 * 60) (issue example_mac ''k'' 1000 (JNum 1)) = Inl InvalidToken"
    by blast
  show ?thesis
    by (intro conjI) (rule f a b c)+
qed

subsection \<open>C5: deleting by identifier\<close>



subsection \<open>C6: batch upload\<close>

text \<open>
  Claim C6, as amended, counting the file parts that carry a file name (multer skips the
  others): a batch of more than 10 files is rejected by the upload middleware before any
  upload attempt (the bucket is unchanged whatever the layers after multer are), and the
  error is multer's \<^verbatim>\<open>LIMIT_UNEXPECTED_FILE\<close> when the first ten files pass the type and
  size checks; a batch containing an invalid file is rejected in the same way, with zero
  objects persisted; for a batch of at most 10 valid files the middleware passes the files
  on in their order. For every list of files it is given, the handler starts all the
  stores, which run concurrently: the storage service handles them in any order
  (\<open>arrival\<close>), and every store has an outcome. The handler answers 200 exactly when the
  batch is not empty and every store succeeds, and then lists the files in the order they
  were sent, the \<open>i\<close>-th entry naming the key of the \<open>i\<close>-th file, whatever the order
  in which the stores were handled.
\<close>

theorem C6_batch:
  "(10 < length (named parts) \<longrightarrow>
      (\<exists>e. post_upload_multiple rest parts b = (Inl e, b)) \<and>
      ((\<forall>f \<in> set (take 10 (named parts)). fileFilter f \<and> file_size f \<le> fileSize_limit) \<longrightarrow>
         post_upload_multiple rest parts b = (Inl (MulterError ''LIMIT_UNEXPECTED_FILE''), b))) \<and>
   ((\<exists>f \<in> set (named parts). \<not> fileFilter f \<or> fileSize_limit < file_size f) \<longrightarrow>
      (\<exists>e. post_upload_multiple rest parts b = (Inl e, b))) \<and>
   (length (named parts) \<le> 10 \<and>
    (\<forall>f \<in> set (named parts). fileFilter f \<and> file_size f \<le> fileSize_limit) \<longrightarrow>
      upload_array parts = Inr (named parts)) \<and>
   length (fst (upload_each cfg uuids arrival files b)) = length files \<and>
   (status (fst (upload_multiple_handler cfg uuids arrival files b)) = 200 \<longleftrightarrow>
      files \<noteq> [] \<and>
      (\<forall>i < length files. \<exists>r. fst (upload_each cfg uuids arrival files b) ! i = Inr r)) \<and>
   (status (fst (upload_multiple_handler cfg uuids arrival files b)) = 200 \<longrightarrow>
      (\<exists>entries.
         body (fst (upload_multiple_handler cfg uuids arrival files b)) =
           JsonBody (JObj [(''message'', JStr ''Uploaded successfully''), (''files'', JArr entries)]) \<and>
         map (\<lambda>e. field e ''filename'') entries =
           map (\<lambda>i. Some (JStr (key_of (uuids i) (files ! i)))) [0..<length files]))"
proof -
  have many: "10 < length (named parts) \<longrightarrow>
      (\<exists>e. post_upload_multiple rest parts b = (Inl e, b)) \<and>
      ((\<forall>f \<in> set (take 10 (named parts)). fileFilter f \<and> file_size f \<le> fileSize_limit) \<longrightarrow>
         post_upload_multiple rest parts b = (Inl (MulterError ''LIMIT_UNEXPECTED_FILE''), b))"
  proof (intro impI conjI)
    assume m: "10 < length (named parts)"
    then obtain e where "multer_files 10 parts = Inl e"
      using multer_files_rejects[of 10 parts] by blast
    then show "\<exists>e. post_upload_multiple rest parts b = (Inl e, b)"
      by (simp add: post_upload_multiple_def upload_array_def)
    assume "\<forall>f \<in> set (take 10 (named parts)). fileFilter f \<and> file_size f \<le> fileSize_limit"
    with m have "multer_files 10 parts = Inl (MulterError ''LIMIT_UNEXPECTED_FILE'')"
      by (rule multer_files_too_many)
    then show "post_upload_multiple rest parts b = (Inl (MulterError ''LIMIT_UNEXPECTED_FILE''), b)"
      by (simp add: post_upload_multiple_def upload_array_def)
  qed
  have invalid: "(\<exists>f \<in> set (named parts). \<not> fileFilter f \<or> fileSize_limit < file_size f) \<longrightarrow>
      (\<exists>e. post_upload_multiple rest parts b = (Inl e, b))"
  proof
    assume "\<exists>f \<in> set (named parts). \<not> fileFilter f \<or> fileSize_limit < file_size f"
    then obtain e where "multer_files 10 parts = Inl e"
      using multer_files_rejects[of 10 parts] by blast
    then show "\<exists>e. post_upload_multiple rest parts b = (Inl e, b)"
      by (simp add: post_upload_multiple_def upload_array_def)
  qed
  have accepted: "length (named parts) \<le> 10 \<and>
      (\<forall>f \<in> set (named parts). fileFilter f \<and> file_size f \<le> fileSize_limit) \<longrightarrow>
      upload_array parts = Inr (named parts)"
  proof
    assume a: "length (named parts) \<le> 10 \<and>
      (\<forall>f \<in> set (named parts). fileFilter f \<and> file_size f \<le> fileSize_limit)"
    from a[THEN conjunct1] a[THEN conjunct2]
    have "multer_files 10 parts = Inr (named parts)"
      by (rule multer_files_accepts)
    then show "upload_array parts = Inr (named parts)"
      by (simp add: upload_array_def)
  qed
  have started: "length (fst (upload_each cfg uuids arrival files b)) = length files"
    by (rule upload_each_length)
  obtain os b' where each: "upload_each cfg uuids arrival files b = (os, b')"
    by (cases "upload_each cfg uuids arrival files b")
  have st: "status (fst (upload_multiple_handler cfg uuids arrival files b)) = 200 \<longleftrightarrow>
      files \<noteq> [] \<and> (\<exists>rs. promise_all os = Inr rs)"
    using each
    by (cases "promise_all os") (auto simp: upload_multiple_handler_def json_response_def)
  have all: "status (fst (upload_multiple_handler cfg uuids arrival files b)) = 200 \<longleftrightarrow>
      files \<noteq> [] \<and>
      (\<forall>i < length files. \<exists>r. fst (upload_each cfg uuids arrival files b) ! i = Inr r)"
    using st upload_each_all_Inr[of files cfg uuids arrival b] each by simp
  have order: "status (fst (upload_multiple_handler cfg uuids arrival files b)) = 200 \<longrightarrow>
      (\<exists>entries.
         body (fst (upload_multiple_handler cfg uuids arrival files b)) =
           JsonBody (JObj [(''message'', JStr ''Uploaded successfully''), (''files'', JArr entries)]) \<and>
         map (\<lambda>e. field e ''filename'') entries =
           map (\<lambda>i. Some (JStr (key_of (uuids i) (files ! i)))) [0..<length files])"
  proof
    assume "status (fst (upload_multiple_handler cfg uuids arrival files b)) = 200"
    with st obtain rs where ne: "files \<noteq> []" and rs: "promise_all os = Inr rs"
      by blast
    from upload_each_results[of cfg uuids arrival files b rs] each rs
    have eq: "rs = map (\<lambda>i. \<lparr>r_id = uuids i, r_filename = key_of (uuids i) (files ! i),
                        r_url = getPublicUrl cfg (key_of (uuids i) (files ! i)),
                        r_size = file_size (files ! i), r_mimetype = mimetype (files ! i)\<rparr>)
              [0..<length files]"
      by simp
    have body: "body (fst (upload_multiple_handler cfg uuids arrival files b)) =
         JsonBody (JObj [(''message'', JStr ''Uploaded successfully''),
                         (''files'', JArr (map (file_entry cfg) rs))])"
      using ne each rs by (simp add: upload_multiple_handler_def json_response_def)
    have names: "map (\<lambda>e. field e ''filename'') (map (file_entry cfg) rs) =
           map (\<lambda>i. Some (JStr (key_of (uuids i) (files ! i)))) [0..<length files]"
      unfolding eq by (simp add: file_entry_def)
    show "\<exists>entries.
         body (fst (upload_multiple_handler cfg uuids arrival files b)) =
           JsonBody (JObj [(''message'', JStr ''Uploaded successfully''), (''files'', JArr entries)]) \<and>
         map (\<lambda>e. field e ''filename'') entries =
           map (\<lambda>i. Some (JStr (key_of (uuids i) (files ! i)))) [0..<length files]"
      by (rule exI[of _ "map (file_entry cfg) rs"]) (rule conjI[OF body names])
  qed
  show ?thesis
    by (rule conjI[OF many conjI[OF invalid conjI[OF accepted conjI[OF started conjI[OF all order]]]]])
qed

theorem C6_batch_witness:
  "10 < length (named (replicate 11 example_png)) \<and>
   post_upload_multiple (upload_multiple_handler example_config example_uuids (\<lambda>i. 1 - i))
       (replicate 11 example_png) [] = (Inl (MulterError ''LIMIT_UNEXPECTED_FILE''), []) \<and>
   (\<exists>e. post_upload_multiple (upload_multiple_handler example_config example_uuids (\<lambda>i. 1 - i))
       [example_png, example_exe] [] = (Inl e, [])) \<and>
   upload_array [example_png, example_empty_part, example_photo] = Inr [example_png, example_photo] \<and>
   sort_key (\<lambda>i. 1 - i) [0..<length [example_png, example_photo]] = [1, 0] \<and>
   status (fst (upload_multiple_handler example_config example_uuids (\<lambda>i. 1 - i)
                  [example_png, example_photo] [])) = 200 \<and>
   (\<exists>entries.
      body (fst (upload_multiple_handler example_config example_uuids (\<lambda>i. 1 - i)
                   [example_png, example_photo] [])) =
        JsonBody (JObj [(''message'', JStr ''Uploaded successfully''), (''files'', JArr entries)]) \<and>
      map (\<lambda>e. field e ''filename'') entries =
        [Some (JStr ''123e4567-e89b-42d3-a456-426614174000.png''),
         Some (JStr ''9f8e7d6c-5b4a-4c3d-8e2f-1a0b9c8d7e6f.JPG'')])"
proof -
  have png: "fileFilter example_png \<and> file_size example_png \<le> fileSize_limit"
    by (simp add: example_png_def fileFilter_def allowed_test_def toLowerCase_def
        lower_char_def pop_def file_size_def fileSize_limit_def)
  have photo: "fileFilter example_photo \<and> file_size example_photo \<le> fileSize_limit"
    by (simp add: example_photo_def fileFilter_def allowed_test_def toLowerCase_def
        lower_char_def pop_def file_size_def fileSize_limit_def)
  have exe: "\<not> fileFilter example_exe"
    by (simp add: example_exe_def fileFilter_def allowed_test_def toLowerCase_def
        lower_char_def pop_def)
  have named11: "named (replicate 11 example_png) = replicate 11 example_png"
    by (simp add: example_png_def)
  have named2: "named [example_png, example_exe] = [example_png, example_exe]"
    by (simp add: example_png_def example_exe_def)
  have named3: "named [example_png, example_empty_part, example_photo] = [example_png, example_photo]"
    by (simp add: example_png_def example_empty_part_def example_photo_def)
  have many: "10 < length (named (replicate 11 example_png))"
    unfolding named11 by simp
  have first: "\<forall>f \<in> set (take 10 (named (replicate 11 example_png))).
      fileFilter f \<and> file_size f \<le> fileSize_limit"
    unfolding named11 using png by simp
  have bad: "\<exists>f \<in> set (named [example_png, example_exe]).
      \<not> fileFilter f \<or> fileSize_limit < file_size f"
    unfolding named2 using exe by simp
  have good: "length (named [example_png, example_empty_part, example_photo]) \<le> 10 \<and>
      (\<forall>f \<in> set (named [example_png, example_empty_part, example_photo]).
         fileFilter f \<and> file_size f \<le> fileSize_limit)"
    unfolding named3 using png photo by simp
  have order: "sort_key (\<lambda>i. 1 - i) [0..<length [example_png, example_photo]] = [1, 0]"
    by (simp add: upt_rec)
  have ok: "status (fst (upload_multiple_handler example_config example_uuids (\<lambda>i. 1 - i)
                  [example_png, example_photo] [])) = 200"
    by (simp add: example_config_def example_png_def example_photo_def example_uuids_def
        upload_multiple_handler_def upload_each_def uploadToSupabase_def storage_upload_def
        json_response_def Let_def pop_def)
  have keys: "map (\<lambda>i. Some (JStr (key_of (example_uuids i) ([example_png, example_photo] ! i))))
             [0..<length [example_png, example_photo]] =
           [Some (JStr ''123e4567-e89b-42d3-a456-426614174000.png''),
            Some (JStr ''9f8e7d6c-5b4a-4c3d-8e2f-1a0b9c8d7e6f.JPG'')]"
    by (simp add: example_uuids_def example_png_def example_photo_def pop_def upt_rec)
  note a = C6_batch[of "replicate 11 example_png"
      "upload_multiple_handler example_config example_uuids (\<lambda>i. 1 - i)" "[]"
      example_config example_uuids "\<lambda>i. 1 - i" "[example_png, example_photo]"]
  note c = C6_batch[of "[example_png, example_exe]"
      "upload_multiple_handler example_config example_uuids (\<lambda>i. 1 - i)" "[]"
      example_config example_uuids "\<lambda>i. 1 - i" "[example_png, example_photo]"]
  note d = C6_batch[of "[example_png, example_empty_part, example_photo]"
      "upload_multiple_handler example_config example_uuids (\<lambda>i. 1 - i)" "[]"
      example_config example_uuids "\<lambda>i. 1 - i" "[example_png, example_photo]"]
  have r1: "post_upload_multiple (upload_multiple_handler example_config example_uuids (\<lambda>i. 1 - i))
       (replicate 11 example_png) [] = (Inl (MulterError ''LIMIT_UNEXPECTED_FILE''), [])"
    by (rule a[THEN conjunct1, THEN mp, OF many, THEN conjunct2, THEN mp, OF first])
  have r2: "\<exists>e. post_upload_multiple (upload_multiple_handler example_config example_uuids (\<lambda>i. 1 - i))
       [example_png, example_exe] [] = (Inl e, [])"
    by (rule c[THEN conjunct2, THEN conjunct1, THEN mp, OF bad])
  have "upload_array [example_png, example_empty_part, example_photo] =
      Inr (named [example_png, example_empty_part, example_photo])"
    by (rule d[THEN conjunct2, THEN conjunct2, THEN conjunct1, THEN mp, OF good])
  then have r3: "upload_array [example_png, example_empty_part, example_photo] =
      Inr [example_png, example_photo]"
    unfolding named3 .
  from a[THEN conjunct2, THEN conjunct2, THEN conjunct2, THEN conjunct2, THEN conjunct2,
      THEN mp, OF ok]
  obtain entries where
    e1: "body (fst (upload_multiple_handler example_config example_uuids (\<lambda>i. 1 - i)
                   [example_png, example_photo] [])) =
        JsonBody (JObj [(''message'', JStr ''Uploaded successfully''), (''files'', JArr entries)])"
    and e2: "map (\<lambda>e. field e ''filename'') entries =
       map (\<lambda>i. Some (JStr (key_of (example_uuids i) ([example_png, example_photo] ! i))))
         [0..<length [example_png, example_photo]]"
    by (elim exE conjE)
  from e2 have e3: "map (\<lambda>e. field e ''filename'') entries =
        [Some (JStr ''123e4567-e89b-42d3-a456-426614174000.png''),
         Some (JStr ''9f8e7d6c-5b4a-4c3d-8e2f-1a0b9c8d7e6f.JPG'')]"
    unfolding keys .
  have r4: "\<exists>entries.
      body (fst (upload_multiple_handler example_config example_uuids (\<lambda>i. 1 - i)
                   [example_png, example_photo] [])) =
        JsonBody (JObj [(''message'', JStr ''Uploaded successfully''), (''files'', JArr entries)]) \<and>
      map (\<lambda>e. field e ''filename'') entries =
        [Some (JStr ''123e4567-e89b-42d3-a456-426614174000.png''),
         Some (JStr ''9f8e7d6c-5b4a-4c3d-8e2f-1a0b9c8d7e6f.JPG'')]"
    by (rule exI[of _ entries]) (rule conjI[OF e1 e3])
  show ?thesis
    by (rule conjI[OF many conjI[OF r1 conjI[OF r2 conjI[OF r3 conjI[OF order conjI[OF ok r4]]]]]])
qed

text \<open>
  The claim as stated names the rejection of every batch of more than 10 files
  \<^verbatim>\<open>TooManyFiles\<close>. Multer takes the files in order and reports the first failure: of 11
  files the first of which is no image, it reports the file type.
\<close>

theorem C6_invalid_file_reported_first:
  "length (named (example_exe # replicate 10 example_png)) = 11 \<and>
   post_upload_multiple (upload_multiple_handler example_config example_uuids (\<lambda>i. i))
       (example_exe # replicate 10 example_png) [] =
     (Inl (Error ''Only image files are allowed''), [])"
  by (simp add: post_upload_multiple_def upload_array_def example_exe_def example_png_def
      fileFilter_def allowed_test_def toLowerCase_def lower_char_def pop_def)


subsection \<open>C7: files larger than 10 MiB\<close>

text \<open>
  Claim C7, as amended: for every uploaded file larger than 10 MiB that passes the type
  filter, the upload middleware fails with the size-specific error \<^verbatim>\<open>LIMIT_FILE_SIZE\<close> before
  any storage write occurs (the bucket is unchanged whatever the layers after multer
  are); that error is another value than the filter's "Only image files are allowed", and
  \<^verbatim>\<open>handleUploadError\<close> answers the two with different messages.
\<close>

theorem C7_too_large:
  "10 * 1024 * 1024 < file_size f \<Longrightarrow> fileFilter f \<Longrightarrow>
     upload_single (f # others) = Inl (MulterError ''LIMIT_FILE_SIZE'') \<and>
     post_upload rest (f # others) b = (Inl (MulterError ''LIMIT_FILE_SIZE''), b) \<and>
     handleUploadError (MulterError ''LIMIT_FILE_SIZE'') =
       json_response 400 (JObj [(''error'', JStr ''File too large. Max 10MB.'')]) \<and>
     handleUploadError (Error ''Only image files are allowed'') =
       json_response 400 (JObj [(''error'', JStr ''Only image files are allowed'')]) \<and>
     handleUploadError (MulterError ''LIMIT_FILE_SIZE'') \<noteq>
       handleUploadError (Error ''Only image files are allowed'')"
proof -
  assume big: "10 * 1024 * 1024 < file_size f" and ok: "fileFilter f"
  from big have "fileSize_limit < file_size f" by (simp add: fileSize_limit_def)
  with ok have "multer_files 1 ([] @ f # others) = Inl (MulterError ''LIMIT_FILE_SIZE'')"
    by (intro multer_files_too_large) auto
  then have single: "upload_single (f # others) = Inl (MulterError ''LIMIT_FILE_SIZE'')"
    by (simp add: upload_single_def)
  then have route: "post_upload rest (f # others) b = (Inl (MulterError ''LIMIT_FILE_SIZE''), b)"
    by (simp add: post_upload_def)
  have large: "handleUploadError (MulterError ''LIMIT_FILE_SIZE'') =
       json_response 400 (JObj [(''error'', JStr ''File too large. Max 10MB.'')])"
    by (simp add: handleUploadError_def)
  have type: "handleUploadError (Error ''Only image files are allowed'') =
       json_response 400 (JObj [(''error'', JStr ''Only image files are allowed'')])"
    by (simp add: handleUploadError_def)
  have "handleUploadError (MulterError ''LIMIT_FILE_SIZE'') \<noteq>
       handleUploadError (Error ''Only image files are allowed'')"
    unfolding large type by (simp add: json_response_def)
  with single route large type show ?thesis by blast
qed

theorem C7_too_large_witness:
  "10 * 1024 * 1024 < file_size example_big_png \<and> fileFilter example_big_png \<and>
   upload_single [example_big_png] = Inl (MulterError ''LIMIT_FILE_SIZE'') \<and>
   post_upload (upload_handler example_config example_uuid) [example_big_png] [] =
     (Inl (MulterError ''LIMIT_FILE_SIZE''), [])"
proof -
  have big: "10 * 1024 * 1024 < file_size example_big_png"
    by (simp add: example_big_png_def file_size_def)
  have ok: "fileFilter example_big_png"
    by (simp add: example_big_png_def fileFilter_def allowed_test_def toLowerCase_def
        lower_char_def pop_def)
  from C7_too_large[OF big ok, of "[]" "upload_handler example_config example_uuid" "[]"] big ok
  show ?thesis by blast
qed

text \<open>
  The claim as stated covers every file larger than 10 MiB. The filter runs before the
  content is read, so a file that is too large and of a type the filter refuses fails with
  the type error.
\<close>

theorem C7_type_error_first:
  "10 * 1024 * 1024 < file_size example_big_exe \<and>
   upload_single [example_big_exe] = Inl (Error ''Only image files are allowed'') \<and>
   upload_single [example_big_exe] \<noteq> Inl (MulterError ''LIMIT_FILE_SIZE'')"
  by (simp add: example_big_exe_def file_size_def upload_single_def fileFilter_def
      allowed_test_def toLowerCase_def lower_char_def pop_def)

subsection \<open>C8: the storage key\<close>

text \<open>
  Claim C8: for every object stored from any original filename, the storage key is the
  random identifier, a dot, and the final dot-segment of the original name; the identifier
  contains no dot, so it is the key's prefix up to the first dot: the prefix the listing
  maps to \<^verbatim>\<open>id\<close> and the deletion route matches. The identifier is any string of the layout
  \<^verbatim>\<open>crypto.randomUUID()\<close> returns; how it is drawn is not part of the model.
\<close>

theorem C8_storage_key:
  "is_uuid uuid \<Longrightarrow> uploadToSupabase cfg uuid file b = Inr (result, b') \<Longrightarrow>
     r_id result = uuid \<and>
     r_filename result =
       uuid @ ''.'' @ rev (takeWhile (\<lambda>c. c \<noteq> CHR ''.'') (rev (originalname file))) \<and>
     CHR ''.'' \<notin> set uuid \<and>
     first_elem (split_str (r_filename result) CHR ''.'') = uuid \<and>
     startsWith (r_filename result) (uuid @ ''.'') \<and>
     (\<exists>obj \<in> set b'. name obj = r_filename result \<and>
        field (image_entry cfg obj) ''id'' = Some (JStr uuid))"
proof -
  assume u: "is_uuid uuid" and up: "uploadToSupabase cfg uuid file b = Inr (result, b')"
  note r = uploadToSupabase_Inr[OF up]
  from u have nodot: "CHR ''.'' \<notin> set uuid" by (rule is_uuid_no_dot)
  from r have fn: "r_filename result = key_of uuid file" by simp
  then have seg: "r_filename result =
       uuid @ ''.'' @ rev (takeWhile (\<lambda>c. c \<noteq> CHR ''.'') (rev (originalname file)))"
    by (simp add: pop_split)
  from nodot have first: "first_elem (split_str (r_filename result) CHR ''.'') = uuid"
    unfolding fn using first_elem_key[of "CHR ''.''" uuid] by simp
  have starts: "startsWith (r_filename result) (uuid @ ''.'')"
    unfolding fn by (simp add: startsWith_def)
  from r have "\<lparr>name = key_of uuid file, content = buffer file, contentType = mimetype file\<rparr> \<in> set b'"
    by simp
  moreover have "field (image_entry cfg \<lparr>name = key_of uuid file, content = buffer file,
      contentType = mimetype file\<rparr>) ''id'' = Some (JStr uuid)"
    using first fn by (simp add: image_entry_def)
  ultimately have "\<exists>obj \<in> set b'. name obj = r_filename result \<and>
        field (image_entry cfg obj) ''id'' = Some (JStr uuid)"
    using fn by (intro bexI[of _ "\<lparr>name = key_of uuid file, content = buffer file,
      contentType = mimetype file\<rparr>"]) simp_all
  with r seg nodot first starts show ?thesis by simp
qed

theorem C8_storage_key_witness:
  "is_uuid example_uuid \<and>
   (\<exists>result b'. uploadToSupabase example_config example_uuid example_photo [] = Inr (result, b') \<and>
      r_filename result = ''123e4567-e89b-42d3-a456-426614174000.JPG'' \<and>
      first_elem (split_str (r_filename result) CHR ''.'') = example_uuid)"
proof -
  have u: "is_uuid example_uuid"
    by (simp add: example_uuid_def is_uuid_def hex_digit_def enumerate_eq_zip upt_rec)
  obtain result b' where
    up: "uploadToSupabase example_config example_uuid example_photo [] = Inr (result, b')"
    by (simp add: uploadToSupabase_def storage_upload_def Let_def)
  note res = C8_storage_key[OF u up]
  from res have f: "first_elem (split_str (r_filename result) CHR ''.'') = example_uuid"
    by blast
  from res have "r_filename result =
       example_uuid @ ''.'' @ rev (takeWhile (\<lambda>c. c \<noteq> CHR ''.'') (rev (originalname example_photo)))"
    by blast
  then have "r_filename result = ''123e4567-e89b-42d3-a456-426614174000.JPG''"
    by (simp add: example_uuid_def example_photo_def)
  with u up f show ?thesis by blast
qed

subsection \<open>C9: serving a file\<close>

text \<open>
  Claim C9, as amended: for every request \<^verbatim>\<open>GET /file/:filename\<close> naming a stored object the
  response is 200 with the object's bytes and the header \<^verbatim>\<open>Content-Type: image/jpeg\<close>, the
  only header the handler sets; for every filename naming no stored object it is 404
  "File not found".
\<close>

theorem C9_serve_file:
  "(filename \<in> set (map name b) \<longrightarrow>
      (\<exists>obj \<in> set b. name obj = filename \<and>
         get_file b filename =
           \<lparr>status = 200, headers = [(''Content-Type'', ''image/jpeg'')],
            body = BufferBody (content obj)\<rparr>)) \<and>
   (filename \<notin> set (map name b) \<longrightarrow>
      get_file b filename = json_response 404 (JObj [(''error'', JStr ''File not found'')]))"
proof (intro conjI impI)
  assume "filename \<in> set (map name b)"
  from find_name[OF this] show "\<exists>obj \<in> set b. name obj = filename \<and>
         get_file b filename =
           \<lparr>status = 200, headers = [(''Content-Type'', ''image/jpeg'')],
            body = BufferBody (content obj)\<rparr>"
    by (auto simp: get_file_def storage_download_def)
next
  assume "filename \<notin> set (map name b)"
  from find_name_None[OF this]
  show "get_file b filename = json_response 404 (JObj [(''error'', JStr ''File not found'')])"
    by (simp add: get_file_def storage_download_def)
qed

theorem C9_serve_file_witness:
  "get_file example_bucket ''123e4567-e89b-42d3-a456-426614174000.png'' =
     \<lparr>status = 200, headers = [(''Content-Type'', ''image/jpeg'')], body = BufferBody ''abc''\<rparr> \<and>
   get_file example_bucket ''missing.png'' =
     json_response 404 (JObj [(''error'', JStr ''File not found'')])"
proof -
  have a: "''123e4567-e89b-42d3-a456-426614174000.png'' \<in> set (map name example_bucket)"
    by (simp add: example_bucket_def)
  have b: "''missing.png'' \<notin> set (map name example_bucket)"
    by (simp add: example_bucket_def)
  from C9_serve_file[of "''123e4567-e89b-42d3-a456-426614174000.png''" example_bucket] a
  obtain obj where "obj \<in> set example_bucket"
    "get_file example_bucket ''123e4567-e89b-42d3-a456-426614174000.png'' =
       \<lparr>status = 200, headers = [(''Content-Type'', ''image/jpeg'')], body = BufferBody (content obj)\<rparr>"
    by blast
  then have "get_file example_bucket ''123e4567-e89b-42d3-a456-426614174000.png'' =
     \<lparr>status = 200, headers = [(''Content-Type'', ''image/jpeg'')], body = BufferBody ''abc''\<rparr>"
    by (simp add: example_bucket_def)
  moreover from C9_serve_file[of "''missing.png''" example_bucket] b
  have "get_file example_bucket ''missing.png'' =
     json_response 404 (JObj [(''error'', JStr ''File not found'')])"
    by blast
  ultimately show ?thesis by blast
qed

text \<open>
  The claim as stated promises a content type reflecting the object and a cache header. An
  object stored as \<^verbatim>\<open>image/png\<close> is served as \<^verbatim>\<open>image/jpeg\<close>, and no \<^verbatim>\<open>Cache-Control\<close>
  header is set.
\<close>

theorem C9_fixed_content_type_no_cache_header:
  "storage_download example_bucket ''123e4567-e89b-42d3-a456-426614174000.png'' =
     Inr \<lparr>name = ''123e4567-e89b-42d3-a456-426614174000.png'', content = ''abc'',
          contentType = ''image/png''\<rparr> \<and>
   map_of (headers (get_file example_bucket ''123e4567-e89b-42d3-a456-426614174000.png''))
     ''Content-Type'' = Some ''image/jpeg'' \<and>
   map_of (headers (get_file example_bucket ''123e4567-e89b-42d3-a456-426614174000.png''))
     ''Cache-Control'' = None"
  by (simp add: example_bucket_def get_file_def storage_download_def)

subsection \<open>C10: the address returned for an upload\<close>

text \<open>
  Claim C10: for every successful single or batch upload, the \<^verbatim>\<open>url\<close> returned to the client
  is \<^verbatim>\<open>BASE_URL + "/file/" + filename\<close> when \<^verbatim>\<open>BASE_URL\<close> is set, and the public address of the
  storage service only when it is not. A successful upload is one the handler answers with
  status 200; \<^verbatim>\<open>BASE_URL\<close> counts as set when it is a non-empty string, as the handler's
  conditional reads it. In a batch the \<open>i\<close>-th entry belongs to the \<open>i\<close>-th file.
\<close>

theorem C10_returned_url:
  "(status (fst (upload_handler cfg uuid (Some f) b)) = 200 \<longrightarrow>
      (\<exists>j. body (fst (upload_handler cfg uuid (Some f) b)) = JsonBody j \<and>
           field j ''filename'' = Some (JStr (key_of uuid f)) \<and>
           (\<forall>base. BASE_URL cfg = Some base \<and> base \<noteq> [] \<longrightarrow>
              field j ''url'' = Some (JStr (base @ ''/file/'' @ key_of uuid f))) \<and>
           (BASE_URL cfg = None \<or> BASE_URL cfg = Some [] \<longrightarrow>
              field j ''url'' = Some (JStr (getPublicUrl cfg (key_of uuid f)))))) \<and>
   (status (fst (upload_multiple_handler cfg uuids arrival files b)) = 200 \<longrightarrow>
      (\<exists>entries.
           body (fst (upload_multiple_handler cfg uuids arrival files b)) =
             JsonBody (JObj [(''message'', JStr ''Uploaded successfully''), (''files'', JArr entries)]) \<and>
           length entries = length files \<and>
           (\<forall>i < length files.
              field (entries ! i) ''filename'' = Some (JStr (key_of (uuids i) (files ! i))) \<and>
              (\<forall>base. BASE_URL cfg = Some base \<and> base \<noteq> [] \<longrightarrow>
                 field (entries ! i) ''url'' =
                   Some (JStr (base @ ''/file/'' @ key_of (uuids i) (files ! i)))) \<and>
              (BASE_URL cfg = None \<or> BASE_URL cfg = Some [] \<longrightarrow>
                 field (entries ! i) ''url'' =
                   Some (JStr (getPublicUrl cfg (key_of (uuids i) (files ! i))))))))"
proof (intro conjI impI)
  assume ok: "status (fst (upload_handler cfg uuid (Some f) b)) = 200"
  then obtain r b' where up: "uploadToSupabase cfg uuid f b = Inr (r, b')"
    by (cases "uploadToSupabase cfg uuid f b")
       (auto simp: upload_handler_def json_response_def)
  note r = uploadToSupabase_Inr[OF up]
  from up r show "\<exists>j. body (fst (upload_handler cfg uuid (Some f) b)) = JsonBody j \<and>
           field j ''filename'' = Some (JStr (key_of uuid f)) \<and>
           (\<forall>base. BASE_URL cfg = Some base \<and> base \<noteq> [] \<longrightarrow>
              field j ''url'' = Some (JStr (base @ ''/file/'' @ key_of uuid f))) \<and>
           (BASE_URL cfg = None \<or> BASE_URL cfg = Some [] \<longrightarrow>
              field j ''url'' = Some (JStr (getPublicUrl cfg (key_of uuid f))))"
    by (auto simp: upload_handler_def json_response_def file_url_def)
next
  assume ok: "status (fst (upload_multiple_handler cfg uuids arrival files b)) = 200"
  obtain os b' where each: "upload_each cfg uuids arrival files b = (os, b')"
    by (cases "upload_each cfg uuids arrival files b")
  from ok each obtain rs where ne: "files \<noteq> []" and all: "promise_all os = Inr rs"
    by (cases "promise_all os")
       (auto simp: upload_multiple_handler_def json_response_def split: if_splits)
  from upload_each_results[of cfg uuids arrival files b rs] each all
  have rs: "rs = map (\<lambda>i. \<lparr>r_id = uuids i, r_filename = key_of (uuids i) (files ! i),
                        r_url = getPublicUrl cfg (key_of (uuids i) (files ! i)),
                        r_size = file_size (files ! i), r_mimetype = mimetype (files ! i)\<rparr>)
              [0..<length files]"
    by simp
  let ?entries = "map (file_entry cfg) rs"
  have body: "body (fst (upload_multiple_handler cfg uuids arrival files b)) =
       JsonBody (JObj [(''message'', JStr ''Uploaded successfully''), (''files'', JArr ?entries)])"
    using ne each all by (simp add: upload_multiple_handler_def json_response_def)
  have len: "length ?entries = length files" by (simp add: rs)
  have nth: "\<And>i. i < length files \<Longrightarrow>
      ?entries ! i = file_entry cfg \<lparr>r_id = uuids i, r_filename = key_of (uuids i) (files ! i),
                          r_url = getPublicUrl cfg (key_of (uuids i) (files ! i)),
                          r_size = file_size (files ! i), r_mimetype = mimetype (files ! i)\<rparr>"
    by (simp add: rs)
  show "\<exists>entries.
           body (fst (upload_multiple_handler cfg uuids arrival files b)) =
             JsonBody (JObj [(''message'', JStr ''Uploaded successfully''), (''files'', JArr entries)]) \<and>
           length entries = length files \<and>
           (\<forall>i < length files.
              field (entries ! i) ''filename'' = Some (JStr (key_of (uuids i) (files ! i))) \<and>
              (\<forall>base. BASE_URL cfg = Some base \<and> base \<noteq> [] \<longrightarrow>
                 field (entries ! i) ''url'' =
                   Some (JStr (base @ ''/file/'' @ key_of (uuids i) (files ! i)))) \<and>
              (BASE_URL cfg = None \<or> BASE_URL cfg = Some [] \<longrightarrow>
                 field (entries ! i) ''url'' =
                   Some (JStr (getPublicUrl cfg (key_of (uuids i) (files ! i))))))"
  proof (intro exI[of _ ?entries] conjI allI impI)
    show "body (fst (upload_multiple_handler cfg uuids arrival files b)) =
        JsonBody (JObj [(''message'', JStr ''Uploaded successfully''), (''files'', JArr ?entries)])"
      by (rule body)
    show "length ?entries = length files" by (rule len)
  next
    fix i assume "i < length files"
    then show "field (?entries ! i) ''filename'' = Some (JStr (key_of (uuids i) (files ! i)))"
      by (simp add: nth file_entry_def)
  next
    fix i base assume "i < length files" "BASE_URL cfg = Some base \<and> base \<noteq> []"
    then show "field (?entries ! i) ''url'' =
        Some (JStr (base @ ''/file/'' @ key_of (uuids i) (files ! i)))"
      by (simp add: nth file_entry_def file_url_def)
  next
    fix i assume "i < length files" "BASE_URL cfg = None \<or> BASE_URL cfg = Some []"
    then show "field (?entries ! i) ''url'' =
        Some (JStr (getPublicUrl cfg (key_of (uuids i) (files ! i))))"
      by (auto simp: nth file_entry_def file_url_def)
  qed
qed


theorem C10_returned_url_witness:
  "status (fst (upload_handler example_config example_uuid (Some example_png) [])) = 200 \<and>
   (\<exists>j. body (fst (upload_handler example_config example_uuid (Some example_png) [])) = JsonBody j \<and>
        field j ''url'' =
          Some (JStr ''https://img.example.com/file/123e4567-e89b-42d3-a456-426614174000.png'')) \<and>
   status (fst (upload_multiple_handler example_config (\<lambda>i. example_uuid) (\<lambda>i. i) [example_png] [])) = 200 \<and>
   (\<exists>entries.
        body (fst (upload_multiple_handler example_config (\<lambda>i. example_uuid) (\<lambda>i. i) [example_png] [])) =
          JsonBody (JObj [(''message'', JStr ''Uploaded successfully''), (''files'', JArr entries)]) \<and>
        field (entries ! 0) ''url'' =
          Some (JStr ''https://img.example.com/file/123e4567-e89b-42d3-a456-426614174000.png''))"
proof -
  have s1: "status (fst (upload_handler example_config example_uuid (Some example_png) [])) = 200"
    by (simp add: example_config_def example_png_def upload_handler_def uploadToSupabase_def storage_upload_def json_response_def
        Let_def)
  have s2: "status (fst (upload_multiple_handler example_config (\<lambda>i. example_uuid) (\<lambda>i. i) [example_png] [])) = 200"
    by (simp add: example_config_def example_png_def upload_multiple_handler_def upload_each_def
        uploadToSupabase_def storage_upload_def json_response_def Let_def)
  have base: "BASE_URL example_config = Some ''https://img.example.com''"
    by (simp add: example_config_def)
  note inst = C10_returned_url[of example_config example_uuid example_png "[]"
      "\<lambda>i. example_uuid" "\<lambda>i. i" "[example_png]"]
  from inst s1 obtain j where
    j: "body (fst (upload_handler example_config example_uuid (Some example_png) [])) = JsonBody j"
      "\<forall>base. BASE_URL example_config = Some base \<and> base \<noteq> [] \<longrightarrow>
         field j ''url'' = Some (JStr (base @ ''/file/'' @ key_of example_uuid example_png))"
    by blast
  from j(2) base have u1: "field j ''url'' =
      Some (JStr ''https://img.example.com/file/123e4567-e89b-42d3-a456-426614174000.png'')"
    by (simp add: example_uuid_def example_png_def pop_def)
  from inst s2 obtain entries where
    e: "body (fst (upload_multiple_handler example_config (\<lambda>i. example_uuid) (\<lambda>i. i) [example_png] [])) =
          JsonBody (JObj [(''message'', JStr ''Uploaded successfully''), (''files'', JArr entries)])"
      "\<forall>i < length [example_png].
         (\<forall>base. BASE_URL example_config = Some base \<and> base \<noteq> [] \<longrightarrow>
            field (entries ! i) ''url'' =
              Some (JStr (base @ ''/file/'' @ key_of example_uuid ([example_png] ! i))))"
    by blast
  from e(2) base have u2: "field (entries ! 0) ''url'' =
      Some (JStr ''https://img.example.com/file/123e4567-e89b-42d3-a456-426614174000.png'')"
    by (simp add: example_uuid_def example_png_def pop_def)
  from s1 j(1) u1 s2 e(1) u2 show ?thesis by blast
qed


end
